theory Spec2Isabelle
  imports Complex_Main
begin

section \<open>Values shared by the models\<close>

text \<open>
  A JavaScript Number is idealised as an exact rational: the values the models compute are
  sums, products and comparisons of prices and quantities, and NaN, the infinities and
  binary rounding are left out. A Date is its count of milliseconds, an ObjectId a natural
  number. Every \<^verbatim>\<open>new Error(msg)\<close> of the source is the value \<open>Error msg\<close>.
\<close>

type_synonym number = rat
type_synonym timestamp = int
type_synonym objectId = nat

datatype error = Error string

text \<open>\<^verbatim>\<open>x || 0\<close> on a number: a falsy number is 0.\<close>

definition orZero :: "number \<Rightarrow> number" where
  "orZero x = (if x = 0 then 0 else x)"

text \<open>\<^verbatim>\<open>!s\<close> is false for a string that is present and not empty.\<close>

definition truthy :: "string option \<Rightarrow> bool" where
  "truthy s = (case s of None \<Rightarrow> False | Some v \<Rightarrow> v \<noteq> [])"

definition toUpperChar :: "char \<Rightarrow> char" where
  "toUpperChar c =
     (case map_of (zip ''abcdefghijklmnopqrstuvwxyz'' ''ABCDEFGHIJKLMNOPQRSTUVWXYZ'') c of
        Some u \<Rightarrow> u
      | None \<Rightarrow> c)"

definition toUpperCase :: "string \<Rightarrow> string" where
  "toUpperCase s = map toUpperChar s"

definition digitChar :: "nat \<Rightarrow> char" where
  "digitChar d = ''0123456789'' ! d"

text \<open>\<^verbatim>\<open>String(n)\<close> for a counter value: its decimal digits.\<close>

function showNat :: "nat \<Rightarrow> string" where
  "showNat n = (if n < 10 then [digitChar n] else showNat (n div 10) @ [digitChar (n mod 10)])"
  by pat_completeness auto
termination
  by (relation "measure id") auto

declare showNat.simps [simp del]

definition padStart :: "nat \<Rightarrow> char \<Rightarrow> string \<Rightarrow> string" where
  "padStart n c s = replicate (n - length s) c @ s"

section \<open>The Transaction model (models/Transaction.js)\<close>

datatype transaction_type = Sale | Purchase | Return | Adjustment | Transfer

datatype tx_status =
  TS_draft | TS_pending | TS_completed | TS_cancelled | TS_refunded
  | TS_partially_refunded | TS_on_hold

datatype payment_status =
  PS_pending | PS_completed | PS_failed | PS_refunded | PS_partially_refunded | PS_authorized

text \<open>
  The schema's enum of delivery states has seven values. \<open>DS_not_applicable\<close> is the
  string \<^verbatim>\<open>'not_applicable'\<close> that the checkout controller writes into the field for
  a pickup; it is no key of the transition table.
\<close>

datatype delivery_status =
  DS_pending | DS_confirmed | DS_preparing | DS_out_for_delivery | DS_delivered
  | DS_cancelled | DS_failed | DS_not_applicable

datatype delivery_option = DO_pickup | DO_delivery | DO_shipping

record transactionItem =
  medicineId :: objectId
  medicineName :: string
  quantity :: number
  unitPrice :: number
  totalPrice :: number
  costPrice :: "number option"

record refund =
  refundId :: objectId
  amount :: number
  date :: timestamp
  reason :: "string option"
  paymentMethod :: string
  processedBy :: objectId
  refundNotes :: "string option"

record refundData =
  rd_amount :: number
  rd_reason :: "string option"
  rd_paymentMethod :: string
  rd_processedBy :: objectId
  rd_notes :: "string option"

text \<open>What a payment handler returns as \<^verbatim>\<open>data\<close>, spread into the payment sub-record.\<close>

datatype payment_data =
  CashData number number
  | CardData "string option" "string option" "string option"
  | BankData string "string option" "string option"
  | WalletData "string option" "string option" "string option"

record payment =
  pay_method :: string
  paymentMethodId :: "objectId option"
  pay_amount :: "number option"
  pay_status :: payment_status
  pay_data :: "payment_data option"
  paidAt :: "timestamp option"
  failedAt :: "timestamp option"
  refundedAt :: "timestamp option"

record transaction =
  oid :: objectId
  isNew :: bool
  pharmacyId :: objectId
  transactionType :: transaction_type
  transactionId :: "string option"
  transactionNumber :: "string option"
  transactionRef :: "string option"
  description :: "string option"
  items :: "transactionItem list"
  subtotal :: number
  tax :: number
  discount :: number
  totalAmount :: number
  customerName :: "string option"
  customerPhone :: "string option"
  payment :: payment
  status :: tx_status
  transactionDate :: timestamp
  refunds :: "refund list"
  deliveryAddress :: "objectId option"
  deliveryOption :: delivery_option
  deliveryStatus :: delivery_status
  deliveryFee :: number
  createdBy :: "objectId option"
  updatedBy :: "objectId option"
  profit :: number
  marginPercentage :: number

subsection \<open>Virtual fields and instance methods\<close>

definition totalRefunded :: "transaction \<Rightarrow> number" where
  "totalRefunded t = foldl (\<lambda>total r. total + orZero (amount r)) 0 (refunds t)"

definition calculateProfit :: "transaction \<Rightarrow> transaction" where
  "calculateProfit t =
     (let p = foldl (\<lambda>total item.
                 let cost = (case costPrice item of None \<Rightarrow> 0 | Some c \<Rightarrow> orZero c)
                 in total + (unitPrice item - cost) * quantity item) 0 (items t)
      in t\<lparr>profit := p,
           marginPercentage := (if subtotal t > 0 then p / subtotal t * 100 else 0)\<rparr>)"

definition canRefund :: "timestamp \<Rightarrow> transaction \<Rightarrow> bool" where
  "canRefund now t =
     (status t = TS_completed \<and> totalRefunded t < totalAmount t
      \<and> transactionDate t > now - 90 * 24 * 60 * 60 * 1000)"

definition updateRefundStatus :: "timestamp \<Rightarrow> transaction \<Rightarrow> transaction" where
  "updateRefundStatus now t =
     (let refunded = totalRefunded t in
      if refunded \<ge> totalAmount t then
        t\<lparr>status := TS_refunded,
          payment := (payment t)\<lparr>pay_status := PS_refunded, refundedAt := Some now\<rparr>\<rparr>
      else if refunded > 0 then
        t\<lparr>status := TS_partially_refunded,
          payment := (payment t)\<lparr>pay_status := PS_partially_refunded\<rparr>\<rparr>
      else t)"

definition RefundNotAllowedError :: error where
  "RefundNotAllowedError = Error ''Transaction cannot be refunded''"

text \<open>
  \<open>processRefund now rid data t\<close>: \<open>now\<close> is the clock, read once for the whole call,
  \<open>rid\<close> the fresh ObjectId of the refund record. The result is the updated transaction
  and the amount returned.
\<close>

definition processRefund ::
  "timestamp \<Rightarrow> objectId \<Rightarrow> refundData \<Rightarrow> transaction \<Rightarrow> error + (transaction \<times> number)" where
  "processRefund now rid d t =
     (if \<not> canRefund now t then Inl RefundNotAllowedError
      else
        let refundAmount = min (rd_amount d) (totalAmount t - totalRefunded t);
            t1 = t\<lparr>refunds := refunds t @
                   [\<lparr>refundId = rid, amount = refundAmount, date = now,
                     reason = rd_reason d, paymentMethod = rd_paymentMethod d,
                     processedBy = rd_processedBy d, refundNotes = rd_notes d\<rparr>]\<rparr>
        in Inr (updateRefundStatus now t1, refundAmount))"

definition validTransitions :: "delivery_status \<Rightarrow> delivery_status list option" where
  "validTransitions s =
     (case s of
        DS_pending \<Rightarrow> Some [DS_confirmed, DS_cancelled]
      | DS_confirmed \<Rightarrow> Some [DS_preparing, DS_cancelled]
      | DS_preparing \<Rightarrow> Some [DS_out_for_delivery, DS_cancelled]
      | DS_out_for_delivery \<Rightarrow> Some [DS_delivered, DS_failed, DS_cancelled]
      | DS_delivered \<Rightarrow> Some []
      | DS_cancelled \<Rightarrow> Some []
      | DS_failed \<Rightarrow> Some [DS_cancelled]
      | DS_not_applicable \<Rightarrow> None)"

definition validateDeliveryTransition :: "delivery_status \<Rightarrow> transaction \<Rightarrow> bool" where
  "validateDeliveryTransition newStatus t =
     (case validTransitions (deliveryStatus t) of
        None \<Rightarrow> False
      | Some allowed \<Rightarrow> newStatus \<in> set allowed)"

definition calculateFinancials :: "transaction \<Rightarrow> transaction" where
  "calculateFinancials t =
     (let s = foldl (\<lambda>total item. total + orZero (totalPrice item)) 0 (items t);
          total = max 0 (s + orZero (tax t) - orZero (discount t) + orZero (deliveryFee t));
          t1 = t\<lparr>subtotal := s, totalAmount := total\<rparr>
      in if pay_amount (payment t1) \<noteq> Some total
         then t1\<lparr>payment := (payment t1)\<lparr>pay_amount := Some total\<rparr>\<rparr>
         else t1)"

definition autoUpdateStatus :: "timestamp \<Rightarrow> transaction \<Rightarrow> transaction" where
  "autoUpdateStatus now t =
     (let t1 = (if pay_status (payment t) = PS_completed \<and> status t = TS_pending
                then t\<lparr>status := TS_completed,
                       payment := (payment t)\<lparr>paidAt :=
                         (case paidAt (payment t) of Some d \<Rightarrow> Some d | None \<Rightarrow> Some now)\<rparr>\<rparr>
                else t)
      in if pay_status (payment t1) = PS_failed \<and> status t1 \<noteq> TS_cancelled
         then t1\<lparr>status := TS_pending, payment := (payment t1)\<lparr>failedAt := Some now\<rparr>\<rparr>
         else t1)"

subsection \<open>Identifier generation and the pre-save middleware\<close>

text \<open>
  \<^verbatim>\<open>generateUniqueId\<close> reads the clock, a random number and the collection. An \<open>idEnv\<close>
  gives, for each attempt, the two base-36 strings drawn and what \<^verbatim>\<open>findOne\<close> answers
  for a candidate: a document, null, or a thrown error.
\<close>

datatype lookup = Found | Absent | DbError error

record idEnv =
  draws :: "nat \<Rightarrow> string \<times> string"
  findOne :: "string \<Rightarrow> lookup"

definition retryCount :: nat where
  "retryCount = 3"

fun generateUniqueId_from :: "nat \<Rightarrow> nat \<Rightarrow> idEnv \<Rightarrow> string \<Rightarrow> error + string" where
  "generateUniqueId_from 0 attempt env prefix =
     Inl (Error ''Failed to generate unique transaction ID'')"
| "generateUniqueId_from (Suc left) attempt env prefix =
     (let uniqueId = prefix @ ''-'' @ toUpperCase (fst (draws env attempt)) @ ''-''
                       @ toUpperCase (snd (draws env attempt))
      in case findOne env uniqueId of
           Absent \<Rightarrow> Inr uniqueId
         | Found \<Rightarrow> generateUniqueId_from left (Suc attempt) env prefix
         | DbError e \<Rightarrow>
             if attempt = retryCount - 1 then Inl e
             else generateUniqueId_from left (Suc attempt) env prefix)"

definition generateUniqueId :: "idEnv \<Rightarrow> string \<Rightarrow> error + string" where
  "generateUniqueId env prefix = generateUniqueId_from retryCount 0 env prefix"

definition typeName :: "transaction_type \<Rightarrow> string" where
  "typeName ty =
     (case ty of Sale \<Rightarrow> ''sale'' | Purchase \<Rightarrow> ''purchase'' | Return \<Rightarrow> ''return''
      | Adjustment \<Rightarrow> ''adjustment'' | Transfer \<Rightarrow> ''transfer'')"

text \<open>
  What a save reads from outside the document: the clock, the verdict of the schema
  validation that the framework runs before the hooks, the identifier draws for the two
  calls of \<^verbatim>\<open>generateUniqueId\<close>, and the answer of \<^verbatim>\<open>Counter.getNextSequence\<close>
  (models/Counter.js is not among the sources; its result is a parameter).
\<close>

record saveEnv =
  env_now :: timestamp
  validates :: "transaction \<Rightarrow> bool"
  txnIds :: idEnv
  refIds :: idEnv
  nextSequence :: "error + nat"

definition assignTransactionId :: "saveEnv \<Rightarrow> transaction \<Rightarrow> error + transaction" where
  "assignTransactionId env t =
     (if \<not> truthy (transactionId t) then
        (case generateUniqueId (txnIds env) ''TXN'' of
           Inl e \<Rightarrow> Inl e
         | Inr u \<Rightarrow> Inr (t\<lparr>transactionId := Some u\<rparr>))
      else Inr t)"

definition assignTransactionNumber :: "saveEnv \<Rightarrow> transaction \<Rightarrow> error + transaction" where
  "assignTransactionNumber env t =
     (if \<not> truthy (transactionNumber t) then
        (case nextSequence env of
           Inl e \<Rightarrow> Inl e
         | Inr counter \<Rightarrow>
             Inr (t\<lparr>transactionNumber :=
                    Some (toUpperCase (take 3 (typeName (transactionType t)))
                          @ padStart 8 (CHR ''0'') (showNat counter))\<rparr>))
      else Inr t)"

definition assignTransactionRef :: "saveEnv \<Rightarrow> transaction \<Rightarrow> error + transaction" where
  "assignTransactionRef env t =
     (if \<not> truthy (transactionRef t) then
        (case generateUniqueId (refIds env) ''REF'' of
           Inl e \<Rightarrow> Inl e
         | Inr u \<Rightarrow> Inr (t\<lparr>transactionRef := Some u\<rparr>))
      else Inr t)"

definition assignIdentifiers :: "saveEnv \<Rightarrow> transaction \<Rightarrow> error + transaction" where
  "assignIdentifiers env t =
     (if isNew t then
        (case assignTransactionId env t of
           Inl e \<Rightarrow> Inl e
         | Inr t1 \<Rightarrow>
             (case assignTransactionNumber env t1 of
                Inl e \<Rightarrow> Inl e
              | Inr t2 \<Rightarrow> assignTransactionRef env t2))
      else Inr t)"

definition preSave :: "saveEnv \<Rightarrow> transaction \<Rightarrow> error + transaction" where
  "preSave env t =
     (case assignIdentifiers env t of
        Inl e \<Rightarrow> Inl e
      | Inr t1 \<Rightarrow>
          let t2 = autoUpdateStatus (env_now env) (calculateProfit (calculateFinancials t1))
          in Inr (t2\<lparr>updatedBy :=
                     (case updatedBy t2 of Some u \<Rightarrow> Some u | None \<Rightarrow> createdBy t2)\<rparr>))"

definition ValidationError :: error where
  "ValidationError = Error ''Validation failed''"

text \<open>
  \<^verbatim>\<open>doc.save()\<close>: validation, then the pre-save middleware; the document that was written
  is no longer new.
\<close>

definition save :: "saveEnv \<Rightarrow> transaction \<Rightarrow> error + transaction" where
  "save env t =
     (if \<not> validates env t then Inl ValidationError
      else case preSave env t of
             Inl e \<Rightarrow> Inl e
           | Inr t1 \<Rightarrow> Inr (t1\<lparr>isNew := False\<rparr>))"

text \<open>
  The schema declares \<^verbatim>\<open>transactionId\<close>, \<^verbatim>\<open>transactionNumber\<close> and \<^verbatim>\<open>transactionRef\<close>
  with \<^verbatim>\<open>immutable: true\<close> (``Cannot be changed once set''): an assignment to such a
  path takes effect only while the document is new, and is dropped afterwards.
\<close>

definition set_transactionId :: "string \<Rightarrow> transaction \<Rightarrow> transaction" where
  "set_transactionId v t = (if isNew t then t\<lparr>transactionId := Some v\<rparr> else t)"

definition set_transactionNumber :: "string \<Rightarrow> transaction \<Rightarrow> transaction" where
  "set_transactionNumber v t = (if isNew t then t\<lparr>transactionNumber := Some v\<rparr> else t)"

definition set_transactionRef :: "string \<Rightarrow> transaction \<Rightarrow> transaction" where
  "set_transactionRef v t = (if isNew t then t\<lparr>transactionRef := Some v\<rparr> else t)"

section \<open>The Cart model (models/Cart.js)\<close>

datatype cart_status = CS_active | CS_completed | CS_abandoned | CS_cancelled

datatype discount_type = Fixed | Percentage

record cartItem =
  ci_id :: objectId
  ci_medicineId :: objectId
  ci_medicineName :: string
  ci_quantity :: number
  ci_unitPrice :: number
  ci_totalPrice :: number
  ci_expiryDate :: "timestamp option"
  ci_pharmacyId :: "objectId option"

record cartDiscount =
  disc_amount :: number
  disc_type :: discount_type
  disc_reason :: string

record cart =
  cart_id :: objectId
  cart_pharmacyId :: "objectId option"
  cart_transactionType :: transaction_type
  cart_items :: "cartItem list"
  cart_totalAmount :: number
  cart_totalItems :: nat
  cart_totalQuantity :: number
  cart_paymentMethod :: string
  cart_status :: cart_status
  cart_lastActivity :: timestamp
  cart_discount :: cartDiscount
  cart_taxAmount :: number
  cart_finalAmount :: number

text \<open>The argument of \<^verbatim>\<open>addItem\<close>.\<close>

record itemData =
  new_medicineId :: objectId
  new_medicineName :: string
  new_quantity :: number
  new_unitPrice :: number
  new_expiryDate :: "timestamp option"

text \<open>
  What a save of a cart reads from outside: the clock, the verdict of the schema
  validation, and the ObjectId given to a pushed item.
\<close>

record cartEnv =
  cart_now :: timestamp
  cart_validates :: "cart \<Rightarrow> bool"
  freshItemId :: objectId

text \<open>The pre-save middleware of a cart item; it runs for every item when the cart is saved.\<close>

definition cartItemPreSave :: "timestamp \<Rightarrow> cartItem \<Rightarrow> error + cartItem" where
  "cartItemPreSave now item =
     (let item1 = item\<lparr>ci_totalPrice := ci_quantity item * ci_unitPrice item\<rparr> in
      case ci_expiryDate item1 of
        Some e \<Rightarrow>
          if e \<le> now then Inl (Error ''Expiry date must be in the future'') else Inr item1
      | None \<Rightarrow> Inr item1)"

fun cartItemsPreSave :: "timestamp \<Rightarrow> cartItem list \<Rightarrow> error + cartItem list" where
  "cartItemsPreSave now [] = Inr []"
| "cartItemsPreSave now (item # rest) =
     (case cartItemPreSave now item of
        Inl e \<Rightarrow> Inl e
      | Inr item1 \<Rightarrow>
          (case cartItemsPreSave now rest of
             Inl e \<Rightarrow> Inl e
           | Inr rest1 \<Rightarrow> Inr (item1 # rest1)))"

text \<open>The pre-save middleware of the cart.\<close>

definition cartPreSave :: "timestamp \<Rightarrow> cart \<Rightarrow> cart" where
  "cartPreSave now c =
     (let total = foldl (\<lambda>sum item. sum + ci_totalPrice item) 0 (cart_items c);
          c1 = c\<lparr>cart_totalAmount := total,
                 cart_totalItems := length (cart_items c),
                 cart_totalQuantity :=
                   foldl (\<lambda>sum item. sum + ci_quantity item) 0 (cart_items c),
                 cart_lastActivity := now\<rparr>;
          discountValue =
            (if disc_type (cart_discount c1) = Percentage
             then (cart_totalAmount c1 * disc_amount (cart_discount c1)) / 100
             else disc_amount (cart_discount c1))
      in c1\<lparr>cart_finalAmount := cart_totalAmount c1 - discountValue + cart_taxAmount c1\<rparr>)"

definition cartSave :: "cartEnv \<Rightarrow> cart \<Rightarrow> error + cart" where
  "cartSave env c =
     (if \<not> cart_validates env c then Inl ValidationError
      else case cartItemsPreSave (cart_now env) (cart_items c) of
             Inl e \<Rightarrow> Inl e
           | Inr its \<Rightarrow> Inr (cartPreSave (cart_now env) (c\<lparr>cart_items := its\<rparr>)))"

fun findIndex :: "('a \<Rightarrow> bool) \<Rightarrow> 'a list \<Rightarrow> nat option" where
  "findIndex P [] = None"
| "findIndex P (x # xs) = (if P x then Some 0 else map_option Suc (findIndex P xs))"

definition addItem :: "cartEnv \<Rightarrow> itemData \<Rightarrow> cart \<Rightarrow> error + cart" where
  "addItem env d c =
     cartSave env
       (case findIndex (\<lambda>item. ci_medicineId item = new_medicineId d) (cart_items c) of
          Some i \<Rightarrow>
            (let item = cart_items c ! i;
                 q = ci_quantity item + new_quantity d
             in c\<lparr>cart_items := (cart_items c)
                    [i := item\<lparr>ci_quantity := q, ci_totalPrice := q * ci_unitPrice item\<rparr>]\<rparr>)
        | None \<Rightarrow>
            c\<lparr>cart_items := cart_items c @
                [\<lparr>ci_id = freshItemId env, ci_medicineId = new_medicineId d,
                  ci_medicineName = new_medicineName d, ci_quantity = new_quantity d,
                  ci_unitPrice = new_unitPrice d,
                  ci_totalPrice = new_quantity d * new_unitPrice d,
                  ci_expiryDate = new_expiryDate d, ci_pharmacyId = cart_pharmacyId c\<rparr>]\<rparr>)"

definition removeItem :: "cartEnv \<Rightarrow> objectId \<Rightarrow> cart \<Rightarrow> error + cart" where
  "removeItem env itemId c =
     cartSave env (c\<lparr>cart_items := filter (\<lambda>item. ci_id item \<noteq> itemId) (cart_items c)\<rparr>)"

definition updateItemQuantity :: "cartEnv \<Rightarrow> objectId \<Rightarrow> number \<Rightarrow> cart \<Rightarrow> error + cart" where
  "updateItemQuantity env itemId q c =
     (if q < 1 then Inl (Error ''Quantity must be at least 1'')
      else case findIndex (\<lambda>item. ci_id item = itemId) (cart_items c) of
             Some i \<Rightarrow>
               (let item = cart_items c ! i in
                cartSave env
                  (c\<lparr>cart_items := (cart_items c)
                      [i := item\<lparr>ci_quantity := q, ci_totalPrice := q * ci_unitPrice item\<rparr>]\<rparr>))
           | None \<Rightarrow> Inl (Error ''Item not found in cart''))"

definition clearCart :: "cartEnv \<Rightarrow> cart \<Rightarrow> error + cart" where
  "clearCart env c =
     cartSave env
       (c\<lparr>cart_items := [], cart_totalAmount := 0, cart_totalItems := 0,
          cart_totalQuantity := 0, cart_status := CS_completed\<rparr>)"

definition applyDiscount ::
  "cartEnv \<Rightarrow> number \<Rightarrow> discount_type \<Rightarrow> string \<Rightarrow> cart \<Rightarrow> error + cart" where
  "applyDiscount env a ty r c =
     cartSave env (c\<lparr>cart_discount := \<lparr>disc_amount = a, disc_type = ty, disc_reason = r\<rparr>\<rparr>)"

definition setTax :: "cartEnv \<Rightarrow> number \<Rightarrow> cart \<Rightarrow> error + cart" where
  "setTax env taxAmount c = cartSave env (c\<lparr>cart_taxAmount := taxAmount\<rparr>)"

definition abandonCart :: "cartEnv \<Rightarrow> cart \<Rightarrow> error + cart" where
  "abandonCart env c = cartSave env (c\<lparr>cart_status := CS_abandoned\<rparr>)"

definition completeCart :: "cartEnv \<Rightarrow> string option \<Rightarrow> cart \<Rightarrow> error + cart" where
  "completeCart env pm c =
     cartSave env
       ((case pm of
           Some m \<Rightarrow> if m \<noteq> [] then c\<lparr>cart_paymentMethod := m\<rparr> else c
         | None \<Rightarrow> c)\<lparr>cart_status := CS_completed\<rparr>)"

text \<open>The mutating operations of a cart, each ending in a save.\<close>

datatype cart_op =
  AddItem itemData
  | RemoveItem objectId
  | UpdateItemQuantity objectId number
  | ApplyDiscount number discount_type string
  | SetTax number
  | ClearCart
  | AbandonCart
  | CompleteCart "string option"

definition runCartOp :: "cartEnv \<Rightarrow> cart_op \<Rightarrow> cart \<Rightarrow> error + cart" where
  "runCartOp env op c =
     (case op of
        AddItem d \<Rightarrow> addItem env d c
      | RemoveItem i \<Rightarrow> removeItem env i c
      | UpdateItemQuantity i q \<Rightarrow> updateItemQuantity env i q c
      | ApplyDiscount a ty r \<Rightarrow> applyDiscount env a ty r c
      | SetTax x \<Rightarrow> setTax env x c
      | ClearCart \<Rightarrow> clearCart env c
      | AbandonCart \<Rightarrow> abandonCart env c
      | CompleteCart pm \<Rightarrow> completeCart env pm c)"

text \<open>
  The discount value as the specification words it: the amount of a fixed discount, the
  percentage of the cart total otherwise.
\<close>

definition cartDiscountValue :: "cart \<Rightarrow> number" where
  "cartDiscountValue c =
     (case disc_type (cart_discount c) of
        Fixed \<Rightarrow> disc_amount (cart_discount c)
      | Percentage \<Rightarrow> cart_totalAmount c * disc_amount (cart_discount c) / 100)"

section \<open>The checkout controller (controllers/checkoutController.js)\<close>

text \<open>
  The controller works on the collections of medicines, transactions, carts, delivery
  addresses and stored payment methods. \<open>charges\<close> records every call of the payment
  dispatch with its type and amount, in order: it is what the outside world was asked to
  pay.
\<close>

record medicine =
  med_name :: string
  med_quantity :: number
  med_price :: number

record paymentMethodDoc =
  pm_userId :: objectId
  pm_isActive :: bool
  cardLastFour :: "string option"
  bankName :: "string option"
  accountNumber :: "string option"
  walletProvider :: "string option"
  phoneNumber :: "string option"

record world =
  medicines :: "objectId \<Rightarrow> medicine option"
  transactions :: "transaction list"
  carts :: "cart list"
  addresses :: "objectId \<Rightarrow> bool"
  paymentMethods :: "objectId \<Rightarrow> paymentMethodDoc option"
  charges :: "(string \<times> number) list"

record user =
  user_id :: objectId
  user_pharmacyId :: "objectId option"

record requestItem =
  ri_medicineId :: objectId
  ri_quantity :: number
  ri_unitPrice :: "number option"

text \<open>The request body with the authenticated user; an absent field is \<open>None\<close>.\<close>

record checkoutRequest =
  req_user :: "user option"
  req_transactionType :: "transaction_type option"
  req_description :: "string option"
  req_items :: "requestItem list option"
  req_customerName :: "string option"
  req_customerPhone :: "string option"
  req_paymentMethod :: "string option"
  req_paymentType :: "string option"
  req_paymentMethodId :: "objectId option"
  req_tax :: "number option"
  req_discount :: "number option"
  req_deliveryOption :: "delivery_option option"
  req_deliveryAddressId :: "objectId option"
  req_saveAsDraft :: "bool option"

datatype message =
  Text string
  | MedicineNotFound string
  | MedicineIdNotFound objectId
  | InsufficientStock string number

record response =
  res_status :: nat
  res_success :: bool
  res_message :: "message option"
  res_data :: "transaction option"

definition respond :: "nat \<Rightarrow> bool \<Rightarrow> message \<Rightarrow> response" where
  "respond code ok m =
     \<lparr>res_status = code, res_success = ok, res_message = Some m, res_data = None\<rparr>"

subsection \<open>Payment dispatch\<close>

text \<open>
  The two gateways are mocked in the source with a random outcome; here a gateway either
  replies or throws, and the reply is part of the environment.
\<close>

record gatewayReply =
  gw_success :: bool
  gw_transactionId :: "string option"
  gw_authorizationCode :: "string option"
  gw_message :: "string option"

datatype gateway_outcome = Replied gatewayReply | Threw

record gateways =
  cardGateway :: gateway_outcome
  walletGateway :: gateway_outcome
  bankReference :: string

record paymentResult =
  pr_success :: bool
  pr_data :: "payment_data option"
  pr_message :: "string option"

definition processCashPayment :: "number \<Rightarrow> paymentResult" where
  "processCashPayment a =
     \<lparr>pr_success = True, pr_data = Some (CashData a 0), pr_message = None\<rparr>"

definition processCardPayment :: "gateways \<Rightarrow> number \<Rightarrow> paymentMethodDoc option \<Rightarrow> paymentResult" where
  "processCardPayment gw a pm =
     (case cardGateway gw of
        Replied r \<Rightarrow>
          \<lparr>pr_success = gw_success r,
           pr_data = Some (CardData (case pm of Some m \<Rightarrow> cardLastFour m | None \<Rightarrow> None)
                             (gw_transactionId r) (gw_authorizationCode r)),
           pr_message = gw_message r\<rparr>
      | Threw \<Rightarrow>
          \<lparr>pr_success = False, pr_data = None, pr_message = Some ''Card payment failed''\<rparr>)"

definition processBankTransfer :: "gateways \<Rightarrow> number \<Rightarrow> paymentMethodDoc option \<Rightarrow> paymentResult" where
  "processBankTransfer gw a pm =
     \<lparr>pr_success = True,
      pr_data = Some (BankData (bankReference gw)
                        (case pm of Some m \<Rightarrow> bankName m | None \<Rightarrow> None)
                        (case pm of
                           Some m \<Rightarrow> map_option (\<lambda>n. drop (length n - 4) n) (accountNumber m)
                         | None \<Rightarrow> None)),
      pr_message = None\<rparr>"

definition processDigitalWallet :: "gateways \<Rightarrow> number \<Rightarrow> paymentMethodDoc option \<Rightarrow> paymentResult" where
  "processDigitalWallet gw a pm =
     (case walletGateway gw of
        Replied r \<Rightarrow>
          \<lparr>pr_success = gw_success r,
           pr_data = Some (WalletData (case pm of Some m \<Rightarrow> walletProvider m | None \<Rightarrow> None)
                             (case pm of Some m \<Rightarrow> phoneNumber m | None \<Rightarrow> None)
                             (gw_transactionId r)),
           pr_message = gw_message r\<rparr>
      | Threw \<Rightarrow>
          \<lparr>pr_success = False, pr_data = None,
           pr_message = Some ''Digital wallet payment failed''\<rparr>)"

definition processPaymentByType ::
  "gateways \<Rightarrow> string \<Rightarrow> number \<Rightarrow> paymentMethodDoc option \<Rightarrow> paymentResult" where
  "processPaymentByType gw ty a pm =
     (if ty = ''cash'' then processCashPayment a
      else if ty = ''card'' then processCardPayment gw a pm
      else if ty = ''bank_transfer'' then processBankTransfer gw a pm
      else if ty = ''digital_wallet'' then processDigitalWallet gw a pm
      else \<lparr>pr_success = False, pr_data = None,
            pr_message = Some ''Unsupported payment method''\<rparr>)"

subsection \<open>Totals\<close>

record totals =
  tot_subtotal :: number
  tot_tax :: number
  tot_deliveryFee :: number
  tot_total :: number
  tot_deliveryAddress :: "objectId option"

text \<open>\<open>calculateTotal\<close>; the last argument is the optional \<^verbatim>\<open>taxRate\<close>, 0.08 when absent.\<close>

definition calculateTotal ::
  "(objectId \<Rightarrow> bool) \<Rightarrow> transactionItem list \<Rightarrow> delivery_option \<Rightarrow> objectId option
     \<Rightarrow> number option \<Rightarrow> totals" where
  "calculateTotal addrs its opt addressId taxRateArg =
     (let taxRate = (case taxRateArg of None \<Rightarrow> 8 / 100 | Some r \<Rightarrow> r);
          sub = foldl (\<lambda>total item. total + unitPrice item * quantity item) 0 its;
          fee = (if opt = DO_delivery then 5 else 0);
          address =
            (if opt = DO_delivery then
               (case addressId of
                  Some a \<Rightarrow> if addrs a then Some a else None
                | None \<Rightarrow> None)
             else None);
          tx = sub * taxRate
      in \<lparr>tot_subtotal = sub, tot_tax = tx, tot_deliveryFee = fee,
          tot_total = sub + tx + fee, tot_deliveryAddress = address\<rparr>)"

subsection \<open>Environment of a checkout\<close>

text \<open>
  \<open>refDraw\<close> is the pair of base-36 strings \<^verbatim>\<open>generateTransactionRef\<close> draws;
  \<open>helperNumber\<close> is the answer of \<^verbatim>\<open>generateTransactionNumber\<close> (utils/helpers.js is
  not among the sources; its result is a parameter); \<open>newOid\<close> is the ObjectId of a
  transaction the controller constructs.
\<close>

record checkoutEnv =
  ck_now :: timestamp
  ck_save :: saveEnv
  ck_cart :: cartEnv
  ck_gateways :: gateways
  refDraw :: "string \<times> string"
  helperNumber :: "error + string"
  newOid :: objectId

definition generateTransactionRef :: "checkoutEnv \<Rightarrow> string" where
  "generateTransactionRef env =
     toUpperCase (''TXN-'' @ fst (refDraw env) @ ''-'' @ snd (refDraw env))"

definition resolvePharmacyId :: "checkoutRequest \<Rightarrow> objectId option" where
  "resolvePharmacyId req =
     (case req_user req of
        None \<Rightarrow> None
      | Some u \<Rightarrow> (case user_pharmacyId u of Some p \<Rightarrow> Some p | None \<Rightarrow> Some (user_id u)))"

definition findActiveMethod :: "world \<Rightarrow> objectId \<Rightarrow> objectId \<Rightarrow> paymentMethodDoc option" where
  "findActiveMethod w methodId userId =
     (case paymentMethods w methodId of
        Some m \<Rightarrow> if pm_userId m = userId \<and> pm_isActive m then Some m else None
      | None \<Rightarrow> None)"

text \<open>Writing a saved document back: it replaces the one with its \<open>_id\<close>, or is added.\<close>

fun storeTransaction :: "transaction \<Rightarrow> transaction list \<Rightarrow> transaction list" where
  "storeTransaction t [] = [t]"
| "storeTransaction t (x # xs) = (if oid x = oid t then t # xs else x # storeTransaction t xs)"

fun storeCart :: "cart \<Rightarrow> cart list \<Rightarrow> cart list" where
  "storeCart c [] = [c]"
| "storeCart c (x # xs) = (if cart_id x = cart_id c then c # xs else x # storeCart c xs)"

text \<open>\<^verbatim>\<open>findByIdAndUpdate(id, { $inc: { quantity: -q } })\<close> for every item, in order.\<close>

fun decrementStock ::
  "(objectId \<times> number) list \<Rightarrow> (objectId \<Rightarrow> medicine option) \<Rightarrow> (objectId \<Rightarrow> medicine option)" where
  "decrementStock [] meds = meds"
| "decrementStock (x # xs) meds =
     decrementStock xs
       (case meds (fst x) of
          None \<Rightarrow> meds
        | Some m \<Rightarrow> meds(fst x \<mapsto> m\<lparr>med_quantity := med_quantity m - snd x\<rparr>))"

subsection \<open>processCheckout\<close>

definition pharmacyOf :: "user \<Rightarrow> objectId" where
  "pharmacyOf u = (case user_pharmacyId u of Some p \<Rightarrow> p | None \<Rightarrow> user_id u)"

definition isDraft :: "checkoutRequest \<Rightarrow> bool" where
  "isDraft req = (req_saveAsDraft req = Some True)"

definition requestType :: "checkoutRequest \<Rightarrow> transaction_type" where
  "requestType req = (case req_transactionType req of None \<Rightarrow> Sale | Some ty \<Rightarrow> ty)"

definition requestDiscount :: "checkoutRequest \<Rightarrow> number" where
  "requestDiscount req = (case req_discount req of None \<Rightarrow> 0 | Some d \<Rightarrow> d)"

definition requestDeliveryOption :: "checkoutRequest \<Rightarrow> delivery_option" where
  "requestDeliveryOption req =
     (case req_deliveryOption req of None \<Rightarrow> DO_pickup | Some opt \<Rightarrow> opt)"

text \<open>The stock validation loop: the first item that fails decides the response.\<close>

fun validateStock ::
  "(objectId \<Rightarrow> medicine option) \<Rightarrow> transactionItem list \<Rightarrow> response option" where
  "validateStock meds [] = None"
| "validateStock meds (item # rest) =
     (case meds (medicineId item) of
        None \<Rightarrow> Some (respond 404 False (MedicineNotFound (medicineName item)))
      | Some m \<Rightarrow>
          if med_quantity m < quantity item
          then Some (respond 400 False (InsufficientStock (med_name m) (med_quantity m)))
          else validateStock meds rest)"

definition completedPayment ::
  "checkoutEnv \<Rightarrow> checkoutRequest \<Rightarrow> string \<Rightarrow> number \<Rightarrow> paymentResult \<Rightarrow> payment" where
  "completedPayment env req ty a r =
     \<lparr>pay_method = ty, paymentMethodId = req_paymentMethodId req, pay_amount = Some a,
      pay_status = PS_completed, pay_data = pr_data r, paidAt = Some (ck_now env),
      failedAt = None, refundedAt = None\<rparr>"

text \<open>
  The assignments to the pending transaction between the payment and the save. The
  assignment to \<^verbatim>\<open>transaction.paymentMethod\<close> names no path of the schema and is left out.
  The second argument of the pair \<open>paid\<close> is the payment type that was dispatched.
\<close>

definition checkoutUpdate ::
  "checkoutEnv \<Rightarrow> checkoutRequest \<Rightarrow> totals \<Rightarrow> (paymentResult \<times> string) option
     \<Rightarrow> transaction \<Rightarrow> transaction" where
  "checkoutUpdate env req tot paid t =
     (let t1 = t\<lparr>description :=
                   (if truthy (req_description req) then req_description req else description t),
                 customerName := req_customerName req,
                 customerPhone := req_customerPhone req,
                 tax := tot_tax tot,
                 discount := requestDiscount req,
                 subtotal := tot_subtotal tot,
                 deliveryFee := tot_deliveryFee tot,
                 totalAmount :=
                   max 0 (tot_subtotal tot + tot_tax tot - requestDiscount req
                          + tot_deliveryFee tot),
                 status := (if isDraft req then TS_draft else TS_completed)\<rparr>;
          t2 = (set_transactionRef (generateTransactionRef env) t1)
                 \<lparr>transactionDate := ck_now env,
                  deliveryOption := requestDeliveryOption req\<rparr>;
          t3 = (case tot_deliveryAddress tot of
                  Some a \<Rightarrow>
                    if requestDeliveryOption req = DO_delivery
                    then t2\<lparr>deliveryAddress := Some a\<rparr> else t2
                | None \<Rightarrow> t2);
          t4 = t3\<lparr>deliveryStatus :=
                    (if requestDeliveryOption req = DO_delivery then DS_pending
                     else DS_not_applicable)\<rparr>
      in case paid of
           Some (r, ty) \<Rightarrow>
             if \<not> isDraft req
             then t4\<lparr>payment := completedPayment env req ty (totalAmount t4) r\<rparr>
             else t4
         | None \<Rightarrow> t4)"

definition clearedCart :: "cart \<Rightarrow> cart" where
  "clearedCart c =
     c\<lparr>cart_items := [], cart_totalAmount := 0, cart_totalItems := 0,
       cart_totalQuantity := 0, cart_status := CS_completed\<rparr>"

definition created :: "string \<Rightarrow> transaction \<Rightarrow> response" where
  "created m t =
     \<lparr>res_status = 201, res_success = True, res_message = Some (Text m), res_data = Some t\<rparr>"

text \<open>From the save to the response: the save, the stock update and the clearing of the cart.\<close>

definition checkoutFinish ::
  "checkoutEnv \<Rightarrow> checkoutRequest \<Rightarrow> objectId \<Rightarrow> transaction \<Rightarrow> world \<Rightarrow> response \<times> world" where
  "checkoutFinish env req pid t w =
     (case save (ck_save env) t of
        Inl e \<Rightarrow> (respond 500 False (Text ''Error during checkout process''), w)
      | Inr t1 \<Rightarrow>
          let w1 = w\<lparr>transactions := storeTransaction t1 (transactions w)\<rparr> in
          if isDraft req then (created ''Transaction saved as draft'' t1, w1)
          else
            let w2 = (if requestType req = Sale
                      then w1\<lparr>medicines :=
                               decrementStock (map (\<lambda>i. (medicineId i, quantity i)) (items t1))
                                 (medicines w1)\<rparr>
                      else w1)
            in case find (\<lambda>c. cart_pharmacyId c = Some pid
                               \<and> cart_transactionType c = requestType req
                               \<and> cart_status c = CS_active) (carts w2) of
                 None \<Rightarrow> (created ''Transaction completed successfully'' t1, w2)
               | Some c \<Rightarrow>
                   (case cartSave (ck_cart env) (clearedCart c) of
                      Inl e \<Rightarrow> (respond 500 False (Text ''Error during checkout process''), w2)
                    | Inr c1 \<Rightarrow>
                        (created ''Transaction completed successfully'' t1,
                         w2\<lparr>carts := storeCart c1 (carts w2)\<rparr>)))"

text \<open>
  The payment step of \<open>processCheckout\<close>: the dispatch is called with \<^verbatim>\<open>totals.total\<close>.
\<close>

definition checkoutPay ::
  "checkoutEnv \<Rightarrow> checkoutRequest \<Rightarrow> user \<Rightarrow> transaction \<Rightarrow> totals \<Rightarrow> world \<Rightarrow> response \<times> world" where
  "checkoutPay env req u t tot w =
     (case req_paymentType req of
        None \<Rightarrow> checkoutFinish env req (pharmacyOf u) (checkoutUpdate env req tot None t) w
      | Some ty \<Rightarrow>
          if \<not> isDraft req \<and> ty \<noteq> [] then
            (let doc = (case req_paymentMethodId req of
                          Some m \<Rightarrow> findActiveMethod w m (user_id u)
                        | None \<Rightarrow> None);
                 r = processPaymentByType (ck_gateways env) ty (tot_total tot) doc;
                 w1 = w\<lparr>charges := charges w @ [(ty, tot_total tot)]\<rparr>
             in if \<not> pr_success r
                then (\<lparr>res_status = 400, res_success = False,
                       res_message = map_option Text (pr_message r), res_data = None\<rparr>, w1)
                else checkoutFinish env req (pharmacyOf u)
                       (checkoutUpdate env req tot (Some (r, ty)) t) w1)
          else checkoutFinish env req (pharmacyOf u) (checkoutUpdate env req tot None t) w)"

definition processCheckout :: "checkoutEnv \<Rightarrow> checkoutRequest \<Rightarrow> world \<Rightarrow> response \<times> world" where
  "processCheckout env req w =
     (case req_user req of
        None \<Rightarrow> (respond 401 False (Text ''Unauthorized: user not found''), w)
      | Some u \<Rightarrow>
          (case find (\<lambda>t. pharmacyId t = pharmacyOf u \<and> transactionType t = requestType req
                          \<and> status t = TS_pending) (transactions w) of
             None \<Rightarrow> (respond 400 False (Text ''Cart is empty''), w)
           | Some t \<Rightarrow>
               if items t = [] then (respond 400 False (Text ''Cart is empty''), w)
               else
                 let tot = calculateTotal (addresses w) (items t) (requestDeliveryOption req)
                             (req_deliveryAddressId req) None
                 in case (if requestType req = Sale \<and> \<not> isDraft req
                          then validateStock (medicines w) (items t) else None) of
                      Some r \<Rightarrow> (r, w)
                    | None \<Rightarrow> checkoutPay env req u t tot w))"

subsection \<open>quickCheckout\<close>

fun quickItems ::
  "(objectId \<Rightarrow> medicine option) \<Rightarrow> transaction_type \<Rightarrow> requestItem list
     \<Rightarrow> response + transactionItem list" where
  "quickItems meds ty [] = Inr []"
| "quickItems meds ty (item # rest) =
     (case meds (ri_medicineId item) of
        None \<Rightarrow> Inl (respond 404 False (MedicineIdNotFound (ri_medicineId item)))
      | Some m \<Rightarrow>
          if ty = Sale \<and> med_quantity m < ri_quantity item
          then Inl (respond 400 False (InsufficientStock (med_name m) (med_quantity m)))
          else
            (let price = (case ri_unitPrice item of
                            Some p \<Rightarrow> if p = 0 then med_price m else p
                          | None \<Rightarrow> med_price m)
             in case quickItems meds ty rest of
                  Inl r \<Rightarrow> Inl r
                | Inr its \<Rightarrow>
                    Inr (\<lparr>medicineId = ri_medicineId item, medicineName = med_name m,
                          quantity = ri_quantity item, unitPrice = price,
                          totalPrice = ri_quantity item * price, costPrice = None\<rparr> # its)))"

text \<open>The payment sub-record of a document constructed without one: the schema's defaults.\<close>

definition defaultPayment :: payment where
  "defaultPayment =
     \<lparr>pay_method = ''cash'', paymentMethodId = None, pay_amount = None,
      pay_status = PS_pending, pay_data = None, paidAt = None, failedAt = None,
      refundedAt = None\<rparr>"

definition quickTransaction ::
  "checkoutEnv \<Rightarrow> checkoutRequest \<Rightarrow> objectId \<Rightarrow> string \<Rightarrow> transactionItem list \<Rightarrow> totals
     \<Rightarrow> number \<Rightarrow> (paymentResult \<times> string) option \<Rightarrow> transaction" where
  "quickTransaction env req pid num its tot due paid =
     \<lparr>oid = newOid env, isNew = True, pharmacyId = pid, transactionType = requestType req,
      transactionId = None, transactionNumber = Some num,
      transactionRef = Some (generateTransactionRef env),
      description = req_description req, items = its, subtotal = tot_subtotal tot,
      tax = tot_tax tot, discount = requestDiscount req, totalAmount = due,
      customerName = req_customerName req, customerPhone = req_customerPhone req,
      payment = (case paid of
                   Some (r, ty) \<Rightarrow> completedPayment env req ty due r
                 | None \<Rightarrow> defaultPayment),
      status = TS_completed, transactionDate = ck_now env, refunds = [],
      deliveryAddress = (if requestDeliveryOption req = DO_delivery
                         then tot_deliveryAddress tot else None),
      deliveryOption = requestDeliveryOption req,
      deliveryStatus = (if requestDeliveryOption req = DO_delivery then DS_pending
                        else DS_not_applicable),
      deliveryFee = tot_deliveryFee tot, createdBy = None, updatedBy = None, profit = 0,
      marginPercentage = 0\<rparr>"

definition quickFinish ::
  "checkoutEnv \<Rightarrow> checkoutRequest \<Rightarrow> requestItem list \<Rightarrow> transaction \<Rightarrow> world \<Rightarrow> response \<times> world" where
  "quickFinish env req ris t w =
     (case save (ck_save env) t of
        Inl e \<Rightarrow> (respond 500 False (Text ''Error during quick checkout''), w)
      | Inr t1 \<Rightarrow>
          let w1 = w\<lparr>transactions := storeTransaction t1 (transactions w)\<rparr>;
              w2 = (if requestType req = Sale
                    then w1\<lparr>medicines :=
                             decrementStock (map (\<lambda>i. (ri_medicineId i, ri_quantity i)) ris)
                               (medicines w1)\<rparr>
                    else w1)
          in (created ''Quick checkout completed successfully'' t1, w2))"

definition quickCheckout :: "checkoutEnv \<Rightarrow> checkoutRequest \<Rightarrow> world \<Rightarrow> response \<times> world" where
  "quickCheckout env req w =
     (case req_user req of
        None \<Rightarrow> (respond 401 False (Text ''Unauthorized: user not found''), w)
      | Some u \<Rightarrow>
          (case req_items req of
             None \<Rightarrow> (respond 400 False (Text ''No items provided for checkout''), w)
           | Some ris \<Rightarrow>
               if ris = [] then (respond 400 False (Text ''No items provided for checkout''), w)
               else
                 (case quickItems (medicines w) (requestType req) ris of
                    Inl r \<Rightarrow> (r, w)
                  | Inr its \<Rightarrow>
                      let tot = calculateTotal (addresses w) its (requestDeliveryOption req)
                                  (req_deliveryAddressId req) None;
                          due = max 0 (tot_subtotal tot + tot_tax tot - requestDiscount req
                                         + tot_deliveryFee tot);
                          build = (\<lambda>paid w1.
                             case helperNumber env of
                               Inl e \<Rightarrow>
                                 (respond 500 False (Text ''Error during quick checkout''), w1)
                             | Inr num \<Rightarrow>
                                 quickFinish env req ris
                                   (quickTransaction env req (pharmacyOf u) num its tot due paid)
                                   w1)
                      in case req_paymentType req of
                           None \<Rightarrow> build None w
                         | Some ty \<Rightarrow>
                             if ty \<noteq> [] then
                               (let doc = (case req_paymentMethodId req of
                                             Some m \<Rightarrow> findActiveMethod w m (user_id u)
                                           | None \<Rightarrow> None);
                                    r = processPaymentByType (ck_gateways env) ty due doc;
                                    w1 = w\<lparr>charges := charges w @ [(ty, due)]\<rparr>
                                in if \<not> pr_success r
                                   then (\<lparr>res_status = 400, res_success = False,
                                          res_message = map_option Text (pr_message r),
                                          res_data = None\<rparr>, w1)
                                   else build (Some (r, ty)) w1)
                             else build None w)))"

subsection \<open>Refund requests one after another\<close>

text \<open>
  A caller sends refund requests in sequence, each with its clock reading and fresh
  ObjectId. A request that \<open>processRefund\<close> rejects throws and leaves the document as it
  was; the next request then works on the unchanged document.
\<close>

fun processRefunds ::
  "(timestamp \<times> objectId \<times> refundData) list \<Rightarrow> transaction \<Rightarrow> transaction" where
  "processRefunds [] t = t"
| "processRefunds (r # rs) t =
     (case processRefund (fst r) (fst (snd r)) (snd (snd r)) t of
        Inl e \<Rightarrow> processRefunds rs t
      | Inr res \<Rightarrow> processRefunds rs (fst res))"

subsection \<open>Operations on a transaction document\<close>

text \<open>
  What the sources do to a transaction document: a save, a refund, an assignment to one of
  the three identifier paths, and the update of the checkout. An operation that throws
  leaves the document as it was.
\<close>

datatype tx_op =
  Op_save saveEnv
  | Op_processRefund timestamp objectId refundData
  | Op_set_transactionId string
  | Op_set_transactionNumber string
  | Op_set_transactionRef string
  | Op_checkoutUpdate checkoutEnv checkoutRequest totals "(paymentResult \<times> string) option"

definition applyOp :: "tx_op \<Rightarrow> transaction \<Rightarrow> transaction" where
  "applyOp op t =
     (case op of
        Op_save env \<Rightarrow> (case save env t of Inl e \<Rightarrow> t | Inr t1 \<Rightarrow> t1)
      | Op_processRefund now rid d \<Rightarrow>
          (case processRefund now rid d t of Inl e \<Rightarrow> t | Inr res \<Rightarrow> fst res)
      | Op_set_transactionId v \<Rightarrow> set_transactionId v t
      | Op_set_transactionNumber v \<Rightarrow> set_transactionNumber v t
      | Op_set_transactionRef v \<Rightarrow> set_transactionRef v t
      | Op_checkoutUpdate env req tot paid \<Rightarrow> checkoutUpdate env req tot paid t)"

definition applyOps :: "tx_op list \<Rightarrow> transaction \<Rightarrow> transaction" where
  "applyOps ops t = foldl (\<lambda>doc op. applyOp op doc) t ops"

definition identifiers :: "transaction \<Rightarrow> string option \<times> string option \<times> string option" where
  "identifiers t = (transactionId t, transactionNumber t, transactionRef t)"

text \<open>Reading a string of decimal digits back, to say what a transaction number holds.\<close>

definition digitValue :: "char \<Rightarrow> nat" where
  "digitValue c = (case findIndex (\<lambda>d. d = c) ''0123456789'' of Some i \<Rightarrow> i | None \<Rightarrow> 0)"

definition readNat :: "string \<Rightarrow> nat" where
  "readNat s = foldl (\<lambda>n c. 10 * n + digitValue c) 0 s"

subsection \<open>Example documents\<close>

definition exampleItem :: transactionItem where
  "exampleItem =
     \<lparr>medicineId = 11, medicineName = ''Paracetamol'', quantity = 10, unitPrice = 10,
      totalPrice = 100, costPrice = Some 6\<rparr>"

definition examplePayment :: payment where
  "examplePayment =
     \<lparr>pay_method = ''cash'', paymentMethodId = None, pay_amount = Some 100,
      pay_status = PS_completed, pay_data = None, paidAt = Some 1000, failedAt = None,
      refundedAt = None\<rparr>"

text \<open>A completed, paid sale of 100 that was written before.\<close>

definition exampleTransaction :: transaction where
  "exampleTransaction =
     \<lparr>oid = 1, isNew = False, pharmacyId = 7, transactionType = Sale,
      transactionId = Some ''TXN-A1-B2'', transactionNumber = Some ''SAL00000001'',
      transactionRef = Some ''REF-C3-D4'', description = None, items = [exampleItem],
      subtotal = 100, tax = 0, discount = 0, totalAmount = 100, customerName = None,
      customerPhone = None, payment = examplePayment, status = TS_completed,
      transactionDate = 1000, refunds = [], deliveryAddress = None,
      deliveryOption = DO_pickup, deliveryStatus = DS_pending, deliveryFee = 0,
      createdBy = Some 7, updatedBy = Some 7, profit = 40, marginPercentage = 40\<rparr>"

text \<open>A sale that was constructed and never saved, and an environment for its first save.\<close>

definition exampleNewTransaction :: transaction where
  "exampleNewTransaction =
     exampleTransaction\<lparr>oid := 2, isNew := True, transactionId := None,
       transactionNumber := None, transactionRef := None, status := TS_pending,
       subtotal := 0, totalAmount := 0, tax := 8, discount := 3, deliveryFee := 5,
       payment := defaultPayment\<rparr>"

definition exampleSaveEnv :: saveEnv where
  "exampleSaveEnv =
     \<lparr>env_now = 2000, validates = (\<lambda>t. True),
      txnIds = \<lparr>draws = (\<lambda>n. (''lx1'', ''a7k2mq'')), findOne = (\<lambda>s. Absent)\<rparr>,
      refIds = \<lparr>draws = (\<lambda>n. (''lx2'', ''b8m3nr'')), findOne = (\<lambda>s. Absent)\<rparr>,
      nextSequence = Inr 42\<rparr>"

text \<open>The document that first save writes.\<close>

definition exampleSavedTransaction :: transaction where
  "exampleSavedTransaction =
     exampleNewTransaction\<lparr>isNew := False, transactionId := Some ''TXN-LX1-A7K2MQ'',
       transactionNumber := Some ''SAL00000042'', transactionRef := Some ''REF-LX2-B8M3NR'',
       subtotal := 100, totalAmount := 110,
       payment := defaultPayment\<lparr>pay_amount := Some 110\<rparr>,
       profit := 40, marginPercentage := 40\<rparr>"

definition exampleRefundData :: refundData where
  "exampleRefundData =
     \<lparr>rd_amount = 60, rd_reason = None, rd_paymentMethod = ''cash'', rd_processedBy = 7,
      rd_notes = None\<rparr>"

text \<open>
  A cart with item A (2 at 10.00) and item B (1 at 5.00), no discount and no tax; the same
  cart with a tax of 5 and a fixed discount of 5; and what clearing the latter writes.
\<close>

definition exampleCart :: cart where
  "exampleCart =
     \<lparr>cart_id = 1, cart_pharmacyId = Some 7, cart_transactionType = Sale,
      cart_items =
        [\<lparr>ci_id = 1, ci_medicineId = 11, ci_medicineName = ''A'', ci_quantity = 2,
          ci_unitPrice = 10, ci_totalPrice = 20, ci_expiryDate = None,
          ci_pharmacyId = Some 7\<rparr>,
         \<lparr>ci_id = 2, ci_medicineId = 12, ci_medicineName = ''B'', ci_quantity = 1,
          ci_unitPrice = 5, ci_totalPrice = 5, ci_expiryDate = Some 9000,
          ci_pharmacyId = Some 7\<rparr>],
      cart_totalAmount = 25, cart_totalItems = 2, cart_totalQuantity = 3,
      cart_paymentMethod = ''cash'', cart_status = CS_active, cart_lastActivity = 1000,
      cart_discount = \<lparr>disc_amount = 0, disc_type = Fixed, disc_reason = []\<rparr>,
      cart_taxAmount = 0, cart_finalAmount = 25\<rparr>"

definition exampleDiscountedCart :: cart where
  "exampleDiscountedCart =
     exampleCart\<lparr>cart_discount :=
                   \<lparr>disc_amount = 10, disc_type = Percentage, disc_reason = []\<rparr>,
       cart_lastActivity := 2000, cart_finalAmount := 45 / 2\<rparr>"

definition exampleCartEnv :: cartEnv where
  "exampleCartEnv = \<lparr>cart_now = 2000, cart_validates = (\<lambda>c. True), freshItemId = 3\<rparr>"

definition exampleTaxedCart :: cart where
  "exampleTaxedCart =
     exampleCart\<lparr>cart_discount := \<lparr>disc_amount = 5, disc_type = Fixed, disc_reason = []\<rparr>,
       cart_taxAmount := 5, cart_finalAmount := 25\<rparr>"

definition exampleClearedCart :: cart where
  "exampleClearedCart =
     exampleTaxedCart\<lparr>cart_items := [], cart_totalAmount := 0, cart_totalItems := 0,
       cart_totalQuantity := 0, cart_status := CS_completed, cart_lastActivity := 2000,
       cart_finalAmount := 0\<rparr>"

text \<open>
  A pharmacy with two medicines in stock, a pending sale of one Paracetamol at 10.00, an
  active cart and one delivery address; a checkout request for that sale, to be delivered,
  paid in cash, with a discount of 5; and an environment in which the card gateway
  declines.
\<close>

definition examplePendingTransaction :: transaction where
  "examplePendingTransaction =
     exampleTransaction\<lparr>oid := 5, status := TS_pending,
       items := [\<lparr>medicineId = 11, medicineName = ''Paracetamol'', quantity = 1,
                  unitPrice = 10, totalPrice = 10, costPrice = Some 6\<rparr>],
       subtotal := 10, totalAmount := 10,
       payment := defaultPayment\<lparr>pay_amount := Some 10\<rparr>, profit := 4\<rparr>"

definition exampleWorld :: world where
  "exampleWorld =
     \<lparr>medicines = [11 \<mapsto> \<lparr>med_name = ''Paracetamol'', med_quantity = 50, med_price = 10\<rparr>,
                   12 \<mapsto> \<lparr>med_name = ''Ibuprofen'', med_quantity = 1, med_price = 5\<rparr>],
      transactions = [examplePendingTransaction],
      carts = [exampleCart],
      addresses = (\<lambda>a. a = 21),
      paymentMethods = Map.empty,
      charges = []\<rparr>"

definition exampleRequest :: checkoutRequest where
  "exampleRequest =
     \<lparr>req_user = Some \<lparr>user_id = 7, user_pharmacyId = None\<rparr>,
      req_transactionType = None, req_description = None,
      req_items = Some [\<lparr>ri_medicineId = 11, ri_quantity = 1, ri_unitPrice = None\<rparr>],
      req_customerName = None, req_customerPhone = None, req_paymentMethod = None,
      req_paymentType = Some ''cash'', req_paymentMethodId = None, req_tax = None,
      req_discount = Some 5, req_deliveryOption = Some DO_delivery,
      req_deliveryAddressId = Some 21, req_saveAsDraft = None\<rparr>"

definition exampleCheckoutEnv :: checkoutEnv where
  "exampleCheckoutEnv =
     \<lparr>ck_now = 2000, ck_save = exampleSaveEnv, ck_cart = exampleCartEnv,
      ck_gateways =
        \<lparr>cardGateway = Replied \<lparr>gw_success = False, gw_transactionId = None,
                                  gw_authorizationCode = None,
                                  gw_message = Some ''Payment declined by bank''\<rparr>,
         walletGateway = Threw, bankReference = ''BT1''\<rparr>,
      refDraw = (''lx3'', ''c9p4qs''), helperNumber = Inr ''SAL00000043'', newOid = 3\<rparr>"

text \<open>The same pharmacy, the pending sale asking for 2 Ibuprofen of which 1 is in stock.\<close>

definition exampleScarceWorld :: world where
  "exampleScarceWorld =
     exampleWorld\<lparr>transactions :=
       [examplePendingTransaction\<lparr>items :=
          [\<lparr>medicineId = 12, medicineName = ''Ibuprofen'', quantity = 2, unitPrice = 5,
            totalPrice = 10, costPrice = None\<rparr>]\<rparr>]\<rparr>"

section \<open>Verified properties\<close>

subsection \<open>Sums\<close>

lemma orZero_id [simp]: "orZero x = x"
  by (simp add: orZero_def)

lemma foldl_plus_sum: "foldl (\<lambda>total r. total + f r) a rs = a + sum_list (map f rs)"
  for a :: number
  by (induction rs arbitrary: a) simp_all

lemma totalRefunded_sum: "totalRefunded t = sum_list (map amount (refunds t))"
  by (simp add: totalRefunded_def foldl_plus_sum)

subsection \<open>Delivery transitions\<close>

text \<open>
  C9. For every current delivery status and every requested new status,
  \<open>validateDeliveryTransition\<close> answers true exactly for the pairs of the table:
  pending to confirmed or cancelled, confirmed to preparing or cancelled, preparing to
  out-for-delivery or cancelled, out-for-delivery to delivered, failed or cancelled, and
  failed to cancelled. Every other pair is rejected, among them every self-transition and
  every transition out of delivered and out of cancelled.
\<close>

theorem validateDeliveryTransition_table:
  "validateDeliveryTransition newStatus t =
     ((deliveryStatus t, newStatus) \<in>
        {(DS_pending, DS_confirmed), (DS_pending, DS_cancelled),
         (DS_confirmed, DS_preparing), (DS_confirmed, DS_cancelled),
         (DS_preparing, DS_out_for_delivery), (DS_preparing, DS_cancelled),
         (DS_out_for_delivery, DS_delivered), (DS_out_for_delivery, DS_failed),
         (DS_out_for_delivery, DS_cancelled),
         (DS_failed, DS_cancelled)})
   \<and> \<not> validateDeliveryTransition (deliveryStatus t) t
   \<and> \<not> validateDeliveryTransition newStatus (t\<lparr>deliveryStatus := DS_delivered\<rparr>)
   \<and> \<not> validateDeliveryTransition newStatus (t\<lparr>deliveryStatus := DS_cancelled\<rparr>)"
  by (cases "deliveryStatus t"; cases newStatus)
     (simp_all add: validateDeliveryTransition_def validTransitions_def)

subsection \<open>Refunds\<close>

lemma processRefund_fails_iff:
  "(processRefund now rid d t = Inl RefundNotAllowedError) = (\<not> canRefund now t)"
  by (auto simp: processRefund_def Let_def)

lemma processRefund_only_error:
  "processRefund now rid d t = Inl e \<Longrightarrow> e = RefundNotAllowedError"
  by (auto simp: processRefund_def Let_def split: if_splits)

lemma processRefund_result:
  "canRefund now t \<Longrightarrow>
     (let a = min (rd_amount d) (totalAmount t - totalRefunded t) in
      \<exists>t'. processRefund now rid d t = Inr (t', a)
           \<and> totalRefunded t' = totalRefunded t + a
           \<and> totalAmount t' = totalAmount t
           \<and> totalRefunded t' \<le> totalAmount t'
           \<and> (totalRefunded t' = totalAmount t' \<longrightarrow>
                status t' = TS_refunded \<and> pay_status (payment t') = PS_refunded
                \<and> refundedAt (payment t') = Some now)
           \<and> (0 < totalRefunded t' \<and> totalRefunded t' < totalAmount t' \<longrightarrow>
                status t' = TS_partially_refunded))"
  by (auto simp: processRefund_def updateRefundStatus_def Let_def totalRefunded_sum
        canRefund_def)

lemma processRefund_invariant:
  "totalRefunded t \<le> totalAmount t \<Longrightarrow> processRefund now rid d t = Inr (t', a)
     \<Longrightarrow> totalRefunded t' \<le> totalAmount t'"
  using processRefund_result[of now t d rid]
  by (auto simp: processRefund_def Let_def split: if_splits)

lemma processRefunds_invariant:
  "totalRefunded t \<le> totalAmount t \<Longrightarrow>
     totalRefunded (processRefunds rs t) \<le> totalAmount (processRefunds rs t)"
proof (induction rs arbitrary: t)
  case Nil
  then show ?case by simp
next
  case (Cons r rs)
  show ?case
  proof (cases "processRefund (fst r) (fst (snd r)) (snd (snd r)) t")
    case (Inl e)
    then show ?thesis using Cons by simp
  next
    case (Inr res)
    then have "totalRefunded (fst res) \<le> totalAmount (fst res)"
      using processRefund_invariant[of t "fst r" "fst (snd r)" "snd (snd r)" "fst res" "snd res"]
        Cons.prems
      by simp
    then show ?thesis using Cons.IH Inr by simp
  qed
qed

text \<open>
  C1. \<open>processRefund\<close> fails, with the refund-not-allowed error and with no other, exactly
  when \<open>canRefund\<close> is false, that is unless the status is completed, the refunded total is
  below \<open>totalAmount\<close> and the transaction date is less than 90 days back. Otherwise it appends
  a refund of exactly the smaller of the requested amount and the remaining balance and
  returns that amount; the refunded total then does not exceed \<open>totalAmount\<close>, and this holds
  after every sequence of refund requests on a transaction that started within its total.
  When the refunded total reaches \<open>totalAmount\<close> the status and the payment status are
  refunded and \<open>refundedAt\<close> is stamped; when it lies strictly between 0 and \<open>totalAmount\<close>
  the status is partially refunded.
\<close>

theorem processRefund_contract:
  "(processRefund now rid d t = Inl RefundNotAllowedError) = (\<not> canRefund now t)
   \<and> (\<forall>e. processRefund now rid d t = Inl e \<longrightarrow> e = RefundNotAllowedError)
   \<and> canRefund now t =
       (status t = TS_completed \<and> sum_list (map amount (refunds t)) < totalAmount t
        \<and> now - transactionDate t < 90 * 24 * 60 * 60 * 1000)
   \<and> (canRefund now t \<longrightarrow>
       (let a = min (rd_amount d) (totalAmount t - totalRefunded t) in
        \<exists>t'. processRefund now rid d t = Inr (t', a)
           \<and> totalRefunded t' = totalRefunded t + a
           \<and> totalAmount t' = totalAmount t
           \<and> totalRefunded t' \<le> totalAmount t'
           \<and> (totalRefunded t' = totalAmount t' \<longrightarrow>
                status t' = TS_refunded \<and> pay_status (payment t') = PS_refunded
                \<and> refundedAt (payment t') = Some now)
           \<and> (0 < totalRefunded t' \<and> totalRefunded t' < totalAmount t' \<longrightarrow>
                status t' = TS_partially_refunded)))
   \<and> (totalRefunded t \<le> totalAmount t \<longrightarrow>
       totalRefunded (processRefunds rs t) \<le> totalAmount (processRefunds rs t))"
proof -
  have "canRefund now t =
       (status t = TS_completed \<and> sum_list (map amount (refunds t)) < totalAmount t
        \<and> now - transactionDate t < 90 * 24 * 60 * 60 * 1000)"
    by (auto simp: canRefund_def totalRefunded_sum)
  then show ?thesis
    using processRefund_fails_iff[of now rid d t] processRefund_only_error[of now rid d t]
      processRefund_result[of now t d rid] processRefunds_invariant[of t rs]
    by blast
qed

theorem processRefund_contract_witness:
  "canRefund 2000 exampleTransaction
   \<and> totalRefunded exampleTransaction \<le> totalAmount exampleTransaction
   \<and> (\<exists>t'. processRefund 2000 5 exampleRefundData exampleTransaction = Inr (t', 60)
          \<and> totalRefunded t' = 60 \<and> status t' = TS_partially_refunded)
   \<and> (\<exists>t'. processRefund 2000 5 (exampleRefundData\<lparr>rd_amount := 150\<rparr>) exampleTransaction
            = Inr (t', 100)
          \<and> totalRefunded t' = 100 \<and> status t' = TS_refunded
          \<and> refundedAt (payment t') = Some 2000)
   \<and> totalRefunded (processRefunds [(2000, 5, exampleRefundData), (3000, 6, exampleRefundData)]
        exampleTransaction)
       \<le> totalAmount (processRefunds [(2000, 5, exampleRefundData), (3000, 6, exampleRefundData)]
        exampleTransaction)"
proof -
  have c: "canRefund 2000 exampleTransaction"
    by (simp add: canRefund_def totalRefunded_def exampleTransaction_def)
  have z: "totalRefunded exampleTransaction = 0" "totalAmount exampleTransaction = 100"
    by (simp_all add: totalRefunded_def exampleTransaction_def)
  show ?thesis
    using c z
      processRefund_contract[of 2000 5 exampleRefundData exampleTransaction
        "[(2000, 5, exampleRefundData), (3000, 6, exampleRefundData)]"]
      processRefund_contract[of 2000 5 "exampleRefundData\<lparr>rd_amount := 150\<rparr>"
        exampleTransaction "[]"]
    by (auto simp: Let_def exampleRefundData_def)
qed

subsection \<open>The auto-status transition\<close>

text \<open>
  C3, as the claim states it, fails: a completed transaction whose payment status is failed
  is put back to pending.
\<close>

theorem autoUpdateStatus_demotes_completed:
  "status exampleTransaction = TS_completed
   \<and> status (autoUpdateStatus 2000
        (exampleTransaction\<lparr>payment := examplePayment\<lparr>pay_status := PS_failed\<rparr>\<rparr>)) = TS_pending"
  by (simp add: autoUpdateStatus_def exampleTransaction_def examplePayment_def)

text \<open>
  C3, amended. The transition promotes pending to completed, stamping \<open>paidAt\<close> if absent,
  when the payment status is completed. It puts the status to pending, stamping
  \<open>failedAt\<close>, when the payment status is failed and the status is not cancelled, a completed
  or refunded transaction included. It changes nothing when the payment status is not
  failed and the status is not pending; so a completed or refunded transaction keeps its
  status exactly when the payment status is not failed. A cancelled transaction stays
  cancelled, and running the transition a second time does not change the status again.
\<close>

theorem autoUpdateStatus_rule:
  "(pay_status (payment t) = PS_completed \<and> status t = TS_pending \<longrightarrow>
      status (autoUpdateStatus now t) = TS_completed
      \<and> paidAt (payment (autoUpdateStatus now t))
          = (case paidAt (payment t) of Some d \<Rightarrow> Some d | None \<Rightarrow> Some now))
   \<and> (pay_status (payment t) = PS_failed \<and> status t \<noteq> TS_cancelled \<longrightarrow>
      status (autoUpdateStatus now t) = TS_pending
      \<and> failedAt (payment (autoUpdateStatus now t)) = Some now)
   \<and> (pay_status (payment t) \<noteq> PS_failed \<and> status t \<noteq> TS_pending \<longrightarrow>
      autoUpdateStatus now t = t)
   \<and> (status t = TS_cancelled \<longrightarrow> status (autoUpdateStatus now t) = TS_cancelled)
   \<and> (status t = TS_completed \<or> status t = TS_refunded \<longrightarrow>
       (status (autoUpdateStatus now t) = status t) = (pay_status (payment t) \<noteq> PS_failed))
   \<and> status (autoUpdateStatus now' (autoUpdateStatus now t)) = status (autoUpdateStatus now t)"
  by (auto simp: autoUpdateStatus_def Let_def)

theorem autoUpdateStatus_rule_witness:
  "status (autoUpdateStatus 2000 (exampleTransaction\<lparr>status := TS_pending,
       payment := examplePayment\<lparr>paidAt := None\<rparr>\<rparr>)) = TS_completed
   \<and> paidAt (payment (autoUpdateStatus 2000 (exampleTransaction\<lparr>status := TS_pending,
       payment := examplePayment\<lparr>paidAt := None\<rparr>\<rparr>))) = Some 2000
   \<and> status (autoUpdateStatus 2000 (exampleTransaction\<lparr>status := TS_refunded,
       payment := examplePayment\<lparr>pay_status := PS_failed\<rparr>\<rparr>)) = TS_pending
   \<and> failedAt (payment (autoUpdateStatus 2000 (exampleTransaction\<lparr>status := TS_refunded,
       payment := examplePayment\<lparr>pay_status := PS_failed\<rparr>\<rparr>))) = Some 2000
   \<and> autoUpdateStatus 2000 exampleTransaction = exampleTransaction
   \<and> status (autoUpdateStatus 2000 (exampleTransaction\<lparr>status := TS_cancelled,
       payment := examplePayment\<lparr>pay_status := PS_failed\<rparr>\<rparr>)) = TS_cancelled"
  using
    autoUpdateStatus_rule[of "exampleTransaction\<lparr>status := TS_pending,
       payment := examplePayment\<lparr>paidAt := None\<rparr>\<rparr>" 2000 2000]
    autoUpdateStatus_rule[of "exampleTransaction\<lparr>status := TS_refunded,
       payment := examplePayment\<lparr>pay_status := PS_failed\<rparr>\<rparr>" 2000 2000]
    autoUpdateStatus_rule[of exampleTransaction 2000 2000]
    autoUpdateStatus_rule[of "exampleTransaction\<lparr>status := TS_cancelled,
       payment := examplePayment\<lparr>pay_status := PS_failed\<rparr>\<rparr>" 2000 2000]
  by (simp add: exampleTransaction_def examplePayment_def)

subsection \<open>The financial fields after a save\<close>

lemma calculateFinancials_fields:
  "subtotal (calculateFinancials t) = sum_list (map totalPrice (items t))"
  "totalAmount (calculateFinancials t)
     = max 0 (sum_list (map totalPrice (items t)) + tax t - discount t + deliveryFee t)"
  "pay_amount (payment (calculateFinancials t)) = Some (totalAmount (calculateFinancials t))"
  "items (calculateFinancials t) = items t" "tax (calculateFinancials t) = tax t"
  "discount (calculateFinancials t) = discount t"
  "deliveryFee (calculateFinancials t) = deliveryFee t"
  by (simp_all add: calculateFinancials_def Let_def foldl_plus_sum)

lemma calculateProfit_frame:
  "subtotal (calculateProfit t) = subtotal t" "totalAmount (calculateProfit t) = totalAmount t"
  "payment (calculateProfit t) = payment t" "items (calculateProfit t) = items t"
  "tax (calculateProfit t) = tax t" "discount (calculateProfit t) = discount t"
  "deliveryFee (calculateProfit t) = deliveryFee t"
  by (simp_all add: calculateProfit_def Let_def)

lemma autoUpdateStatus_frame:
  "subtotal (autoUpdateStatus now t) = subtotal t"
  "totalAmount (autoUpdateStatus now t) = totalAmount t"
  "pay_amount (payment (autoUpdateStatus now t)) = pay_amount (payment t)"
  "items (autoUpdateStatus now t) = items t"
  "tax (autoUpdateStatus now t) = tax t" "discount (autoUpdateStatus now t) = discount t"
  "deliveryFee (autoUpdateStatus now t) = deliveryFee t"
  by (simp_all add: autoUpdateStatus_def Let_def)

lemma assignIdentifiers_frame:
  "assignIdentifiers env t = Inr t1 \<Longrightarrow>
     items t1 = items t \<and> tax t1 = tax t \<and> discount t1 = discount t
     \<and> deliveryFee t1 = deliveryFee t \<and> isNew t1 = isNew t"
  by (auto simp: assignIdentifiers_def assignTransactionId_def assignTransactionNumber_def
        assignTransactionRef_def split: if_splits sum.splits)

lemma preSave_financials:
  assumes "preSave env t = Inr t'"
  shows "subtotal t' = sum_list (map totalPrice (items t'))
     \<and> totalAmount t' = max 0 (subtotal t' + tax t' - discount t' + deliveryFee t')
     \<and> pay_amount (payment t') = Some (totalAmount t')
     \<and> items t' = items t \<and> tax t' = tax t \<and> discount t' = discount t
     \<and> deliveryFee t' = deliveryFee t"
proof -
  obtain t1 where a: "assignIdentifiers env t = Inr t1"
    and t': "t' = (autoUpdateStatus (env_now env) (calculateProfit (calculateFinancials t1)))
          \<lparr>updatedBy := (case updatedBy (autoUpdateStatus (env_now env) (calculateProfit (calculateFinancials t1))) of Some u \<Rightarrow> Some u 
              | None \<Rightarrow> createdBy (autoUpdateStatus (env_now env) (calculateProfit (calculateFinancials t1))))\<rparr>"
    using assms by (auto simp: preSave_def Let_def split: sum.splits)
  have f: "items t1 = items t" "tax t1 = tax t" "discount t1 = discount t"
    "deliveryFee t1 = deliveryFee t"
    using assignIdentifiers_frame[OF a] by simp_all
  show ?thesis
    by (simp add: t' autoUpdateStatus_frame calculateProfit_frame calculateFinancials_fields f)
qed

lemma exampleNumber: "padStart 8 (CHR ''0'') (showNat 42) = ''00000042''"
  by code_simp

lemma example_first_save:
  "save exampleSaveEnv exampleNewTransaction = Inr exampleSavedTransaction"
  by (simp add: save_def preSave_def assignIdentifiers_def assignTransactionId_def
      assignTransactionNumber_def assignTransactionRef_def generateUniqueId_def retryCount_def
      exampleSaveEnv_def exampleNewTransaction_def exampleTransaction_def truthy_def Let_def
      toUpperCase_def toUpperChar_def typeName_def exampleNumber exampleSavedTransaction_def
      calculateFinancials_def calculateProfit_def autoUpdateStatus_def defaultPayment_def
      exampleItem_def examplePayment_def numeral_3_eq_3)

text \<open>
  C2. After every save of a transaction the subtotal is the sum of the items' total prices,
  \<open>totalAmount\<close> is \<open>max 0 (subtotal + tax - discount + deliveryFee)\<close>, and the amount of
  the payment sub-record equals \<open>totalAmount\<close>; the save changes neither the items nor the
  tax, the discount or the delivery fee it computes from. A document that was written
  before and passes validation is always saved.
\<close>

theorem save_financial_invariant:
  "(save env t = Inr t' \<longrightarrow>
      subtotal t' = sum_list (map totalPrice (items t'))
      \<and> totalAmount t' = max 0 (subtotal t' + tax t' - discount t' + deliveryFee t')
      \<and> pay_amount (payment t') = Some (totalAmount t')
      \<and> items t' = items t \<and> tax t' = tax t \<and> discount t' = discount t
      \<and> deliveryFee t' = deliveryFee t)
   \<and> (validates env t \<and> \<not> isNew t \<longrightarrow> (\<exists>t1. save env t = Inr t1))"
proof -
  have "save env t = Inr t' \<longrightarrow>
      subtotal t' = sum_list (map totalPrice (items t'))
      \<and> totalAmount t' = max 0 (subtotal t' + tax t' - discount t' + deliveryFee t')
      \<and> pay_amount (payment t') = Some (totalAmount t')
      \<and> items t' = items t \<and> tax t' = tax t \<and> discount t' = discount t
      \<and> deliveryFee t' = deliveryFee t"
  proof
    assume "save env t = Inr t'"
    then obtain t2 where p: "preSave env t = Inr t2" and t': "t' = t2\<lparr>isNew := False\<rparr>"
      by (auto simp: save_def split: if_splits sum.splits)
    show "subtotal t' = sum_list (map totalPrice (items t'))
      \<and> totalAmount t' = max 0 (subtotal t' + tax t' - discount t' + deliveryFee t')
      \<and> pay_amount (payment t') = Some (totalAmount t')
      \<and> items t' = items t \<and> tax t' = tax t \<and> discount t' = discount t
      \<and> deliveryFee t' = deliveryFee t"
      using preSave_financials[OF p] by (simp add: t')
  qed
  moreover have "validates env t \<and> \<not> isNew t \<longrightarrow> (\<exists>t1. save env t = Inr t1)"
    by (simp add: save_def preSave_def assignIdentifiers_def Let_def)
  ultimately show ?thesis by blast
qed

theorem save_financial_invariant_witness:
  "save exampleSaveEnv exampleNewTransaction = Inr exampleSavedTransaction
   \<and> map totalPrice (items exampleSavedTransaction) = [100]
   \<and> subtotal exampleSavedTransaction = 100
   \<and> tax exampleSavedTransaction = 8 \<and> discount exampleSavedTransaction = 3
   \<and> deliveryFee exampleSavedTransaction = 5
   \<and> totalAmount exampleSavedTransaction = 110
   \<and> pay_amount (payment exampleSavedTransaction) = Some 110
   \<and> validates exampleSaveEnv exampleSavedTransaction \<and> \<not> isNew exampleSavedTransaction
   \<and> (\<exists>t1. save exampleSaveEnv exampleSavedTransaction = Inr t1)"
  using example_first_save
    save_financial_invariant[of exampleSaveEnv exampleNewTransaction exampleSavedTransaction]
    save_financial_invariant[of exampleSaveEnv exampleSavedTransaction exampleSavedTransaction]
  by (simp add: exampleSavedTransaction_def exampleNewTransaction_def exampleTransaction_def
      exampleItem_def exampleSaveEnv_def)

subsection \<open>The three identifiers\<close>

lemma generateUniqueId_from_nonempty:
  "generateUniqueId_from n a env p = Inr u \<Longrightarrow> u \<noteq> []"
  by (induction n arbitrary: a) (auto simp: Let_def split: lookup.splits if_splits)

lemma padStart_nonempty: "padStart 8 c s \<noteq> []"
  by (auto simp: padStart_def)

lemma generateUniqueId_truthy: "generateUniqueId env p = Inr u \<Longrightarrow> truthy (Some u)"
  using generateUniqueId_from_nonempty[of retryCount 0 env p u]
  by (simp add: generateUniqueId_def truthy_def)

lemma assignTransactionId_props:
  assumes "assignTransactionId env t = Inr t1"
  shows "truthy (transactionId t1)" "truthy (transactionId t) \<Longrightarrow> t1 = t"
    "transactionNumber t1 = transactionNumber t" "transactionRef t1 = transactionRef t"
    "transactionType t1 = transactionType t"
proof -
  show "truthy (transactionId t) \<Longrightarrow> t1 = t"
    using assms by (simp add: assignTransactionId_def)
  show "truthy (transactionId t1)"
  proof (cases "truthy (transactionId t)")
    case True
    then show ?thesis using assms by (simp add: assignTransactionId_def)
  next
    case False
    then obtain u where "generateUniqueId (txnIds env) ''TXN'' = Inr u"
      "t1 = t\<lparr>transactionId := Some u\<rparr>"
      using assms by (auto simp: assignTransactionId_def split: sum.splits)
    then show ?thesis using generateUniqueId_truthy by simp
  qed
  show "transactionNumber t1 = transactionNumber t" "transactionRef t1 = transactionRef t"
    "transactionType t1 = transactionType t"
    using assms by (auto simp: assignTransactionId_def split: if_splits sum.splits)
qed

lemma assignTransactionRef_props:
  assumes "assignTransactionRef env t = Inr t1"
  shows "truthy (transactionRef t1)" "truthy (transactionRef t) \<Longrightarrow> t1 = t"
    "transactionNumber t1 = transactionNumber t" "transactionId t1 = transactionId t"
proof -
  show "truthy (transactionRef t) \<Longrightarrow> t1 = t"
    using assms by (simp add: assignTransactionRef_def)
  show "truthy (transactionRef t1)"
  proof (cases "truthy (transactionRef t)")
    case True
    then show ?thesis using assms by (simp add: assignTransactionRef_def)
  next
    case False
    then obtain u where "generateUniqueId (refIds env) ''REF'' = Inr u"
      "t1 = t\<lparr>transactionRef := Some u\<rparr>"
      using assms by (auto simp: assignTransactionRef_def split: sum.splits)
    then show ?thesis using generateUniqueId_truthy by simp
  qed
  show "transactionNumber t1 = transactionNumber t" "transactionId t1 = transactionId t"
    using assms by (auto simp: assignTransactionRef_def split: if_splits sum.splits)
qed

lemma assignTransactionNumber_props:
  assumes "assignTransactionNumber env t = Inr t1"
  shows "truthy (transactionNumber t1)" "truthy (transactionNumber t) \<Longrightarrow> t1 = t"
    "transactionId t1 = transactionId t" "transactionRef t1 = transactionRef t"
    "\<not> truthy (transactionNumber t) \<Longrightarrow>
       \<exists>n. nextSequence env = Inr n
          \<and> transactionNumber t1 =
              Some (toUpperCase (take 3 (typeName (transactionType t)))
                    @ padStart 8 (CHR ''0'') (showNat n))"
proof -
  show "truthy (transactionNumber t) \<Longrightarrow> t1 = t"
    using assms by (simp add: assignTransactionNumber_def)
  show n: "\<not> truthy (transactionNumber t) \<Longrightarrow>
       \<exists>n. nextSequence env = Inr n
          \<and> transactionNumber t1 =
              Some (toUpperCase (take 3 (typeName (transactionType t)))
                    @ padStart 8 (CHR ''0'') (showNat n))"
    using assms by (auto simp: assignTransactionNumber_def split: sum.splits)
  show "truthy (transactionNumber t1)"
  proof (cases "truthy (transactionNumber t)")
    case True
    then show ?thesis using assms by (simp add: assignTransactionNumber_def)
  next
    case False
    then show ?thesis using n by (auto simp: truthy_def padStart_nonempty)
  qed
  show "transactionId t1 = transactionId t" "transactionRef t1 = transactionRef t"
    using assms by (auto simp: assignTransactionNumber_def split: if_splits sum.splits)
qed

lemma assignIdentifiers_new:
  assumes "assignIdentifiers env t = Inr t3" "isNew t"
  shows "truthy (transactionId t3) \<and> truthy (transactionNumber t3) \<and> truthy (transactionRef t3)
     \<and> (truthy (transactionId t) \<longrightarrow> transactionId t3 = transactionId t)
     \<and> (truthy (transactionNumber t) \<longrightarrow> transactionNumber t3 = transactionNumber t)
     \<and> (truthy (transactionRef t) \<longrightarrow> transactionRef t3 = transactionRef t)
     \<and> (\<not> truthy (transactionNumber t) \<longrightarrow>
          (\<exists>n. nextSequence env = Inr n
             \<and> transactionNumber t3 =
                 Some (toUpperCase (take 3 (typeName (transactionType t)))
                       @ padStart 8 (CHR ''0'') (showNat n))))"
proof -
  obtain t1 t2 where s1: "assignTransactionId env t = Inr t1"
    and s2: "assignTransactionNumber env t1 = Inr t2"
    and s3: "assignTransactionRef env t2 = Inr t3"
    using assms by (auto simp: assignIdentifiers_def split: sum.splits)
  note p1 = assignTransactionId_props[OF s1]
  note p2 = assignTransactionNumber_props[OF s2]
  note p3 = assignTransactionRef_props[OF s3]
  have "truthy (transactionId t3)" using p1(1) p2(3) p3(4) by simp
  moreover have "truthy (transactionNumber t3)" using p2(1) p3(3) by simp
  moreover have "truthy (transactionRef t3)" using p3(1) .
  moreover have "truthy (transactionId t) \<longrightarrow> transactionId t3 = transactionId t"
    using p1(2) p2(3) p3(4) by auto
  moreover have "truthy (transactionNumber t) \<longrightarrow> transactionNumber t3 = transactionNumber t"
    using p1(3) p2(2) p3(3) by auto
  moreover have "truthy (transactionRef t) \<longrightarrow> transactionRef t3 = transactionRef t"
    using p1(4) p2(4) p3(2) by auto
  moreover have "\<not> truthy (transactionNumber t) \<longrightarrow>
          (\<exists>n. nextSequence env = Inr n
             \<and> transactionNumber t3 =
                 Some (toUpperCase (take 3 (typeName (transactionType t)))
                       @ padStart 8 (CHR ''0'') (showNat n)))"
    using p1(3,5) p2(5) p3(3) by auto
  ultimately show ?thesis by blast
qed

lemma assignIdentifiers_old:
  "\<not> isNew t \<Longrightarrow> assignIdentifiers env t = Inr t"
  by (simp add: assignIdentifiers_def)

lemma hooks_identifiers:
  "identifiers (calculateFinancials t) = identifiers t"
  "identifiers (calculateProfit t) = identifiers t"
  "identifiers (autoUpdateStatus now t) = identifiers t"
  "identifiers (updateRefundStatus now t) = identifiers t"
  "isNew (calculateFinancials t) = isNew t"
  "isNew (calculateProfit t) = isNew t"
  "isNew (autoUpdateStatus now t) = isNew t"
  "isNew (updateRefundStatus now t) = isNew t"
  by (simp_all add: identifiers_def calculateFinancials_def calculateProfit_def
        autoUpdateStatus_def updateRefundStatus_def Let_def)

lemma preSave_identifiers:
  "preSave env t = Inr t' \<Longrightarrow>
     \<exists>t1. assignIdentifiers env t = Inr t1 \<and> identifiers t' = identifiers t1"
  using hooks_identifiers(1-3)
  by (auto simp: preSave_def Let_def identifiers_def split: sum.splits)

lemma save_new:
  assumes "save env t = Inr t'" "isNew t"
  shows "\<not> isNew t'
     \<and> truthy (transactionId t') \<and> truthy (transactionNumber t') \<and> truthy (transactionRef t')
     \<and> (truthy (transactionId t) \<longrightarrow> transactionId t' = transactionId t)
     \<and> (truthy (transactionNumber t) \<longrightarrow> transactionNumber t' = transactionNumber t)
     \<and> (truthy (transactionRef t) \<longrightarrow> transactionRef t' = transactionRef t)
     \<and> (\<not> truthy (transactionNumber t) \<longrightarrow>
          (\<exists>n. nextSequence env = Inr n
             \<and> transactionNumber t' =
                 Some (toUpperCase (take 3 (typeName (transactionType t)))
                       @ padStart 8 (CHR ''0'') (showNat n))))"
proof -
  obtain t2 where p: "preSave env t = Inr t2" and t': "t' = t2\<lparr>isNew := False\<rparr>"
    using assms(1) by (auto simp: save_def split: if_splits sum.splits)
  obtain t1 where a: "assignIdentifiers env t = Inr t1" and i: "identifiers t2 = identifiers t1"
    using preSave_identifiers[OF p] by blast
  have "identifiers t' = identifiers t1" "\<not> isNew t'"
    using i by (simp_all add: t' identifiers_def)
  then show ?thesis
    using assignIdentifiers_new[OF a assms(2)] by (simp add: identifiers_def)
qed

lemma save_old:
  assumes "save env t = Inr t'" "\<not> isNew t"
  shows "identifiers t' = identifiers t \<and> \<not> isNew t'"
proof -
  obtain t2 where p: "preSave env t = Inr t2" and t': "t' = t2\<lparr>isNew := False\<rparr>"
    using assms(1) by (auto simp: save_def split: if_splits sum.splits)
  have "identifiers t2 = identifiers t"
    using preSave_identifiers[OF p] assignIdentifiers_old[OF assms(2)] by simp
  then show ?thesis by (simp add: t' identifiers_def)
qed

lemma processRefund_identifiers:
  "processRefund now rid d t = Inr res \<Longrightarrow>
     identifiers (fst res) = identifiers t \<and> isNew (fst res) = isNew t"
  using hooks_identifiers(4,8)
  by (auto simp: processRefund_def Let_def identifiers_def updateRefundStatus_def split: if_splits)

lemma checkoutUpdate_identifiers:
  "\<not> isNew t \<Longrightarrow> identifiers (checkoutUpdate env req tot paid t) = identifiers t
      \<and> \<not> isNew (checkoutUpdate env req tot paid t)"
  by (auto simp: checkoutUpdate_def Let_def identifiers_def set_transactionRef_def
        split: option.splits prod.splits)

lemma applyOp_identifiers:
  assumes "\<not> isNew t"
  shows "identifiers (applyOp op t) = identifiers t \<and> \<not> isNew (applyOp op t)"
proof (cases op)
  case (Op_save env)
  then show ?thesis using save_old[where env=env and t=t] assms
    by (cases "save env t") (auto simp: applyOp_def)
next
  case (Op_processRefund now rid d)
  then show ?thesis using processRefund_identifiers[of now rid d t] assms
    by (cases "processRefund now rid d t") (auto simp: applyOp_def)
next
  case (Op_checkoutUpdate env req tot paid)
  then show ?thesis using checkoutUpdate_identifiers[of t env req tot paid] assms
    by (simp add: applyOp_def)
qed (use assms in \<open>simp_all add: applyOp_def set_transactionId_def set_transactionNumber_def
       set_transactionRef_def\<close>)

lemma applyOps_identifiers:
  "\<not> isNew t \<Longrightarrow> identifiers (applyOps ops t) = identifiers t \<and> \<not> isNew (applyOps ops t)"
  unfolding applyOps_def
proof (induction ops arbitrary: t)
  case Nil
  then show ?case by simp
next
  case (Cons op ops)
  then show ?case using applyOp_identifiers[of t op] by simp
qed

lemma digitValue_digitChar: "d < 10 \<Longrightarrow> digitValue (digitChar d) = d"
proof -
  assume "d < 10"
  then have "d \<in> {0,1,2,3,4,5,6,7,8,9}" by auto
  then show ?thesis
    by (auto simp: digitValue_def digitChar_def)
qed

lemma digitChar_digit: "d < 10 \<Longrightarrow> digitChar d \<in> set ''0123456789''"
  unfolding digitChar_def by (rule nth_mem) simp

lemma readNat_append: "readNat (s @ [c]) = 10 * readNat s + digitValue c"
  by (simp add: readNat_def)

lemma readNat_showNat: "readNat (showNat n) = n"
proof (induction n rule: showNat.induct)
  case (1 n)
  show ?case
  proof (cases "n < 10")
    case True
    then show ?thesis
      by (subst showNat.simps) (simp add: readNat_def digitValue_digitChar)
  next
    case False
    then have "readNat (showNat (n div 10)) = n div 10" using 1 by simp
    then show ?thesis using False
      by (subst showNat.simps) (simp add: readNat_append digitValue_digitChar)
  qed
qed

lemma showNat_digits: "set (showNat n) \<subseteq> set ''0123456789''"
proof (induction n rule: showNat.induct)
  case (1 n)
  show ?case
  proof (cases "n < 10")
    case True
    then show ?thesis using digitChar_digit[of n]
      by (subst showNat.simps) simp
  next
    case False
    then have "set (showNat (n div 10)) \<subseteq> set ''0123456789''" using 1 by simp
    then show ?thesis using False digitChar_digit[of "n mod 10"]
      by (subst showNat.simps) simp
  qed
qed

lemma length_showNat: "0 < k \<Longrightarrow> n < 10 ^ k \<Longrightarrow> length (showNat n) \<le> k"
proof (induction n arbitrary: k rule: showNat.induct)
  case (1 n)
  show ?case
  proof (cases "n < 10")
    case True
    then show ?thesis using 1(2) by (subst showNat.simps) simp
  next
    case False
    obtain j where k: "k = Suc j" using 1(2) by (cases k) auto
    have "j \<noteq> 0" using False 1(3) k by (cases j) auto
    moreover have "n div 10 < 10 ^ j" using 1(3) k by (simp add: less_mult_imp_div_less mult.commute)
    ultimately have "length (showNat (n div 10)) \<le> j" using 1(1)[OF False, of j] by simp
    then show ?thesis using False k by (subst showNat.simps) simp
  qed
qed

lemma showNat_nonempty: "showNat n \<noteq> []"
  by (subst showNat.simps) simp

lemma readNat_zeros: "readNat (replicate k (CHR ''0'') @ s) = readNat s"
proof -
  have "foldl (\<lambda>n c. 10 * n + digitValue c) 0 (replicate k (CHR ''0'')) = 0"
    by (induction k) (simp_all add: digitValue_def)
  then show ?thesis by (simp add: readNat_def)
qed

lemma typePrefix:
  "toUpperCase (take 3 (typeName ty)) =
     (case ty of Sale \<Rightarrow> ''SAL'' | Purchase \<Rightarrow> ''PUR'' | Return \<Rightarrow> ''RET''
      | Adjustment \<Rightarrow> ''ADJ'' | Transfer \<Rightarrow> ''TRA'')"
  by (cases ty) (simp_all add: typeName_def toUpperCase_def toUpperChar_def)

lemma transactionNumber_format:
  "(let num = toUpperCase (take 3 (typeName ty)) @ padStart 8 (CHR ''0'') (showNat n) in
      take 3 num = (case ty of Sale \<Rightarrow> ''SAL'' | Purchase \<Rightarrow> ''PUR'' | Return \<Rightarrow> ''RET''
                    | Adjustment \<Rightarrow> ''ADJ'' | Transfer \<Rightarrow> ''TRA'')
      \<and> set (drop 3 num) \<subseteq> set ''0123456789''
      \<and> readNat (drop 3 num) = n
      \<and> length (drop 3 num) = max 8 (length (showNat n))
      \<and> (n < 10 ^ 8 \<longrightarrow> length num = 11))"
proof -
  have l: "length (toUpperCase (take 3 (typeName ty))) = 3"
    by (cases ty) (simp_all add: typeName_def toUpperCase_def)
  have d: "set (padStart 8 (CHR ''0'') (showNat n)) \<subseteq> set ''0123456789''"
    using showNat_digits[of n] by (auto simp: padStart_def)
  have r: "readNat (padStart 8 (CHR ''0'') (showNat n)) = n"
    by (simp add: padStart_def readNat_zeros readNat_showNat)
  have len: "length (padStart 8 (CHR ''0'') (showNat n)) = max 8 (length (showNat n))"
    by (simp add: padStart_def)
  have "n < 10 ^ 8 \<Longrightarrow> length (showNat n) \<le> 8" using length_showNat[of 8 n] by simp
  then show ?thesis using l d r len typePrefix[of ty]
    by (simp add: Let_def)
qed


text \<open>
  C8. At the first save of a transaction each of \<open>transactionId\<close>, \<open>transactionNumber\<close> and
  \<open>transactionRef\<close> that is not yet set is assigned, and one that is set is kept; after that
  save all three are set. No later operation on the written document changes any of them:
  not a save, a refund, the update of the checkout, nor an assignment to one of the three
  paths. A number the save assigns is the first three letters of the transaction type in
  upper case followed by the sequence number in decimal, padded with zeros to 8 digits.
\<close>

theorem identifiers_assigned_once:
  "(isNew t \<and> save env t = Inr t' \<longrightarrow>
      \<not> isNew t'
      \<and> truthy (transactionId t') \<and> truthy (transactionNumber t')
      \<and> truthy (transactionRef t')
      \<and> (truthy (transactionId t) \<longrightarrow> transactionId t' = transactionId t)
      \<and> (truthy (transactionNumber t) \<longrightarrow> transactionNumber t' = transactionNumber t)
      \<and> (truthy (transactionRef t) \<longrightarrow> transactionRef t' = transactionRef t)
      \<and> (\<not> truthy (transactionNumber t) \<longrightarrow>
           (\<exists>n. nextSequence env = Inr n
              \<and> transactionNumber t' =
                  Some (toUpperCase (take 3 (typeName (transactionType t)))
                        @ padStart 8 (CHR ''0'') (showNat n)))))
   \<and> (\<not> isNew t \<longrightarrow>
        identifiers (applyOps ops t) = identifiers t \<and> \<not> isNew (applyOps ops t))
   \<and> (let num = toUpperCase (take 3 (typeName ty)) @ padStart 8 (CHR ''0'') (showNat k) in
        take 3 num = (case ty of Sale \<Rightarrow> ''SAL'' | Purchase \<Rightarrow> ''PUR'' | Return \<Rightarrow> ''RET''
                      | Adjustment \<Rightarrow> ''ADJ'' | Transfer \<Rightarrow> ''TRA'')
        \<and> set (drop 3 num) \<subseteq> set ''0123456789''
        \<and> readNat (drop 3 num) = k
        \<and> length (drop 3 num) = max 8 (length (showNat k))
        \<and> (k < 10 ^ 8 \<longrightarrow> length num = 11))"
  using save_new[of env t t'] applyOps_identifiers[of t ops] transactionNumber_format[of ty k]
  by blast

theorem identifiers_assigned_once_witness:
  "isNew exampleNewTransaction
   \<and> \<not> truthy (transactionNumber exampleNewTransaction)
   \<and> save exampleSaveEnv exampleNewTransaction = Inr exampleSavedTransaction
   \<and> nextSequence exampleSaveEnv = Inr 42
   \<and> identifiers exampleSavedTransaction
       = (Some ''TXN-LX1-A7K2MQ'', Some ''SAL00000042'', Some ''REF-LX2-B8M3NR'')
   \<and> \<not> isNew exampleSavedTransaction
   \<and> identifiers (applyOps [Op_set_transactionRef ''TXN-NEW'', Op_save exampleSaveEnv,
                              Op_processRefund 3000 5 exampleRefundData,
                              Op_set_transactionNumber ''SAL00000099'']
                     exampleSavedTransaction)
       = identifiers exampleSavedTransaction
   \<and> (10::nat) < 10 ^ 8
   \<and> length (toUpperCase (take 3 (typeName Sale)) @ padStart 8 (CHR ''0'') (showNat 10)) = 11"
  using example_first_save
    identifiers_assigned_once[of exampleNewTransaction exampleSaveEnv exampleSavedTransaction
      "[]" Sale 10]
    identifiers_assigned_once[of exampleSavedTransaction exampleSaveEnv exampleSavedTransaction
      "[Op_set_transactionRef ''TXN-NEW'', Op_save exampleSaveEnv,
        Op_processRefund 3000 5 exampleRefundData, Op_set_transactionNumber ''SAL00000099'']"
      Sale 10]
  by (simp add: exampleSavedTransaction_def exampleNewTransaction_def exampleTransaction_def
      exampleSaveEnv_def identifiers_def truthy_def Let_def)

subsection \<open>The totals of a cart\<close>

lemma cartPreSave_totals:
  "cart_totalAmount (cartPreSave now c) = sum_list (map ci_totalPrice (cart_items c))"
  "cart_totalItems (cartPreSave now c) = length (cart_items c)"
  "cart_totalQuantity (cartPreSave now c) = sum_list (map ci_quantity (cart_items c))"
  "cart_finalAmount (cartPreSave now c) =
     cart_totalAmount (cartPreSave now c) - cartDiscountValue (cartPreSave now c)
       + cart_taxAmount (cartPreSave now c)"
  "cart_items (cartPreSave now c) = cart_items c"
  "cart_discount (cartPreSave now c) = cart_discount c"
  "cart_taxAmount (cartPreSave now c) = cart_taxAmount c"
  "cart_status (cartPreSave now c) = cart_status c"
  by (simp_all add: cartPreSave_def Let_def foldl_plus_sum cartDiscountValue_def
        split: discount_type.splits)

lemma cartPreSave_ignores_totals:
  "cartPreSave now (c\<lparr>cart_totalAmount := a, cart_totalItems := b, cart_totalQuantity := q,
       cart_finalAmount := f\<rparr>) = cartPreSave now c"
  by (simp add: cartPreSave_def Let_def)

lemma cartSave_totals:
  assumes "cartSave env c = Inr c'"
  shows "cart_totalAmount c' = sum_list (map ci_totalPrice (cart_items c'))
     \<and> cart_totalItems c' = length (cart_items c')
     \<and> cart_totalQuantity c' = sum_list (map ci_quantity (cart_items c'))
     \<and> cart_finalAmount c' = cart_totalAmount c' - cartDiscountValue c' + cart_taxAmount c'"
proof -
  obtain its where "c' = cartPreSave (cart_now env) (c\<lparr>cart_items := its\<rparr>)"
    using assms by (auto simp: cartSave_def split: if_splits sum.splits)
  then show ?thesis by (simp add: cartPreSave_totals)
qed

lemma runCartOp_totals:
  assumes "runCartOp env op c = Inr c'"
  shows "cart_totalAmount c' = sum_list (map ci_totalPrice (cart_items c'))
     \<and> cart_totalItems c' = length (cart_items c')
     \<and> cart_totalQuantity c' = sum_list (map ci_quantity (cart_items c'))
     \<and> cart_finalAmount c' = cart_totalAmount c' - cartDiscountValue c' + cart_taxAmount c'"
proof -
  have "\<exists>c0. cartSave env c0 = Inr c'"
    using assms
    by (cases op)
       (auto simp: runCartOp_def addItem_def removeItem_def updateItemQuantity_def
          applyDiscount_def setTax_def clearCart_def abandonCart_def completeCart_def Let_def
          split: if_splits option.splits)
  then show ?thesis using cartSave_totals by blast
qed

lemma clearCart_result:
  assumes "clearCart env c = Inr c'"
  shows "cart_items c' = [] \<and> cart_totalAmount c' = 0 \<and> cart_totalItems c' = 0
     \<and> cart_totalQuantity c' = 0 \<and> cart_status c' = CS_completed
     \<and> cart_discount c' = cart_discount c \<and> cart_taxAmount c' = cart_taxAmount c
     \<and> cart_finalAmount c' =
         cart_taxAmount c - (case disc_type (cart_discount c) of
                               Fixed \<Rightarrow> disc_amount (cart_discount c) | Percentage \<Rightarrow> 0)"
  using assms
  by (auto simp: clearCart_def cartSave_def cartPreSave_def Let_def
        split: if_splits discount_type.splits)

lemma example_applyDiscount:
  "applyDiscount exampleCartEnv 10 Percentage [] exampleCart = Inr exampleDiscountedCart"
  by (simp add: applyDiscount_def cartSave_def cartPreSave_def cartItemPreSave_def Let_def
       exampleCart_def exampleCartEnv_def exampleDiscountedCart_def)

lemma example_clearCart: "clearCart exampleCartEnv exampleTaxedCart = Inr exampleClearedCart"
  by (simp add: clearCart_def cartSave_def cartPreSave_def Let_def
       exampleCart_def exampleCartEnv_def exampleTaxedCart_def exampleClearedCart_def)

text \<open>
  C7. After every save of a cart, and so after each of its mutating operations,
  \<open>totalAmount\<close> is the sum of the items' total prices, \<open>totalItems\<close> the number of items,
  \<open>totalQuantity\<close> the sum of the items' quantities, and \<open>finalAmount\<close> is
  \<open>totalAmount - discountValue + taxAmount\<close>, the discount value being the amount of a fixed
  discount and \<open>totalAmount * amount / 100\<close> of a percentage discount. The recompute reads
  the items only: whatever totals the document carried before do not matter.
\<close>

theorem cart_totals_after_save:
  "(runCartOp env op c = Inr c' \<longrightarrow>
      cart_totalAmount c' = sum_list (map ci_totalPrice (cart_items c'))
      \<and> cart_totalItems c' = length (cart_items c')
      \<and> cart_totalQuantity c' = sum_list (map ci_quantity (cart_items c'))
      \<and> cart_finalAmount c' = cart_totalAmount c' - cartDiscountValue c' + cart_taxAmount c')
   \<and> (cartSave env c = Inr c' \<longrightarrow>
      cart_totalAmount c' = sum_list (map ci_totalPrice (cart_items c'))
      \<and> cart_totalItems c' = length (cart_items c')
      \<and> cart_totalQuantity c' = sum_list (map ci_quantity (cart_items c'))
      \<and> cart_finalAmount c' = cart_totalAmount c' - cartDiscountValue c' + cart_taxAmount c')
   \<and> cartDiscountValue c' =
       (if disc_type (cart_discount c') = Fixed then disc_amount (cart_discount c')
        else cart_totalAmount c' * disc_amount (cart_discount c') / 100)
   \<and> cartPreSave now (c\<lparr>cart_totalAmount := a, cart_totalItems := b,
         cart_totalQuantity := q, cart_finalAmount := f\<rparr>) = cartPreSave now c"
proof -
  have "cartDiscountValue c' =
       (if disc_type (cart_discount c') = Fixed then disc_amount (cart_discount c')
        else cart_totalAmount c' * disc_amount (cart_discount c') / 100)"
    by (simp add: cartDiscountValue_def split: discount_type.splits)
  then show ?thesis
    using runCartOp_totals[of env op c c'] cartSave_totals[of env c c']
      cartPreSave_ignores_totals[where now=now and c=c and a=a and b=b and q=q and f=f]
    by blast
qed

theorem cart_totals_after_save_witness:
  "runCartOp exampleCartEnv (ApplyDiscount 10 Percentage []) exampleCart
     = Inr exampleDiscountedCart
   \<and> map ci_totalPrice (cart_items exampleDiscountedCart) = [20, 5]
   \<and> map ci_quantity (cart_items exampleDiscountedCart) = [2, 1]
   \<and> cart_totalAmount exampleDiscountedCart = 25
   \<and> cart_totalItems exampleDiscountedCart = 2
   \<and> cart_totalQuantity exampleDiscountedCart = 3
   \<and> cartDiscountValue exampleDiscountedCart = 5 / 2
   \<and> cart_finalAmount exampleDiscountedCart = 25 - 5 / 2 + 0"
proof -
  have r: "runCartOp exampleCartEnv (ApplyDiscount 10 Percentage []) exampleCart
     = Inr exampleDiscountedCart"
    using example_applyDiscount by (simp add: runCartOp_def)
  show ?thesis
    using r
      cart_totals_after_save[where env=exampleCartEnv and op="ApplyDiscount 10 Percentage []"
        and c=exampleCart and c'=exampleDiscountedCart]
    by (simp add: exampleDiscountedCart_def exampleCart_def)
qed

subsection \<open>Clearing a cart\<close>

text \<open>
  C10, as the claim states it, fails: a cart with a tax of 5 and a fixed discount of 5 is
  cleared to a final amount of 0.
\<close>

theorem clearCart_final_amount_zero:
  "clearCart exampleCartEnv exampleTaxedCart = Inr exampleClearedCart
   \<and> cart_taxAmount exampleTaxedCart = 5
   \<and> cart_discount exampleTaxedCart = \<lparr>disc_amount = 5, disc_type = Fixed, disc_reason = []\<rparr>
   \<and> cart_finalAmount exampleClearedCart = 0"
  using example_clearCart
  by (simp add: exampleTaxedCart_def exampleClearedCart_def exampleCart_def)

text \<open>
  C10, amended. Clearing a cart empties the items, zeroes \<open>totalAmount\<close>, \<open>totalItems\<close> and
  \<open>totalQuantity\<close> and sets the status to completed; the discount and the tax amount stay.
  The save-time recompute then sets \<open>finalAmount\<close> to the tax amount minus the discount
  value, which is the amount of a fixed discount and 0 for a percentage discount. So the
  final amount of a cleared cart differs from 0 exactly when the tax amount differs from
  that discount value. A clear whose document passes validation always succeeds.
\<close>

theorem clearCart_effect:
  "(clearCart env c = Inr c' \<longrightarrow>
      cart_items c' = [] \<and> cart_totalAmount c' = 0 \<and> cart_totalItems c' = 0
      \<and> cart_totalQuantity c' = 0 \<and> cart_status c' = CS_completed
      \<and> cart_discount c' = cart_discount c \<and> cart_taxAmount c' = cart_taxAmount c
      \<and> cart_finalAmount c' =
          cart_taxAmount c - (case disc_type (cart_discount c) of
                                Fixed \<Rightarrow> disc_amount (cart_discount c) | Percentage \<Rightarrow> 0)
      \<and> (cart_finalAmount c' \<noteq> 0) =
          (cart_taxAmount c \<noteq> (case disc_type (cart_discount c) of
                                Fixed \<Rightarrow> disc_amount (cart_discount c) | Percentage \<Rightarrow> 0)))
   \<and> (cart_validates env (clearedCart c) \<longrightarrow> (\<exists>c1. clearCart env c = Inr c1))"
proof -
  have "cart_validates env (clearedCart c) \<longrightarrow> (\<exists>c1. clearCart env c = Inr c1)"
    by (simp add: clearCart_def clearedCart_def cartSave_def)
  then show ?thesis
    using clearCart_result[of env c c'] by auto
qed

theorem clearCart_effect_witness:
  "clearCart exampleCartEnv exampleTaxedCart = Inr exampleClearedCart
   \<and> cart_items exampleClearedCart = []
   \<and> cart_discount exampleClearedCart = cart_discount exampleTaxedCart
   \<and> cart_taxAmount exampleClearedCart = 5
   \<and> cart_finalAmount exampleClearedCart = 5 - 5
   \<and> cart_validates exampleCartEnv (clearedCart (exampleCart\<lparr>cart_taxAmount := 5\<rparr>))
   \<and> (\<exists>c1. clearCart exampleCartEnv (exampleCart\<lparr>cart_taxAmount := 5\<rparr>) = Inr c1
          \<and> cart_finalAmount c1 = 5)"
proof -
  have v: "cart_validates exampleCartEnv (clearedCart (exampleCart\<lparr>cart_taxAmount := 5\<rparr>))"
    by (simp add: exampleCartEnv_def)
  then obtain c1 where c1: "clearCart exampleCartEnv (exampleCart\<lparr>cart_taxAmount := 5\<rparr>) = Inr c1"
    using clearCart_effect[of exampleCartEnv "exampleCart\<lparr>cart_taxAmount := 5\<rparr>"] by blast
  have "cart_finalAmount c1 = 5"
    using c1 clearCart_effect[of exampleCartEnv "exampleCart\<lparr>cart_taxAmount := 5\<rparr>" c1]
    by (simp add: exampleCart_def)
  then show ?thesis
    using v c1 example_clearCart
      clearCart_effect[of exampleCartEnv exampleTaxedCart exampleClearedCart]
    by (simp add: exampleTaxedCart_def exampleCart_def)
qed

subsection \<open>Checkout: the stock check\<close>

lemmas example_defs =
  exampleWorld_def exampleScarceWorld_def exampleRequest_def exampleCheckoutEnv_def
  examplePendingTransaction_def exampleTransaction_def examplePayment_def exampleItem_def
  exampleSaveEnv_def exampleCartEnv_def exampleCart_def defaultPayment_def

lemmas checkout_defs =
  processCheckout_def checkoutPay_def checkoutFinish_def checkoutUpdate_def
  quickCheckout_def quickFinish_def quickTransaction_def generateTransactionRef_def
  calculateTotal_def pharmacyOf_def requestType_def isDraft_def requestDiscount_def
  requestDeliveryOption_def processPaymentByType_def processCashPayment_def
  processCardPayment_def completedPayment_def set_transactionRef_def
  save_def preSave_def assignIdentifiers_def assignTransactionId_def
  assignTransactionNumber_def assignTransactionRef_def generateUniqueId_def retryCount_def
  calculateFinancials_def calculateProfit_def autoUpdateStatus_def cartSave_def
  cartPreSave_def cartItemPreSave_def clearedCart_def created_def respond_def truthy_def
  toUpperCase_def toUpperChar_def Let_def

lemma validateStock_Some:
  "validateStock meds its = Some r \<Longrightarrow>
     \<exists>item \<in> set its.
        (meds (medicineId item) = None
           \<and> r = respond 404 False (MedicineNotFound (medicineName item)))
        \<or> (\<exists>m. meds (medicineId item) = Some m \<and> med_quantity m < quantity item
               \<and> r = respond 400 False (InsufficientStock (med_name m) (med_quantity m)))"
  by (induction its) (auto split: option.splits if_splits)

lemma validateStock_None:
  "(validateStock meds its = None) =
     (\<forall>item \<in> set its. \<exists>m. meds (medicineId item) = Some m
                              \<and> quantity item \<le> med_quantity m)"
  by (induction its) (auto split: option.splits)

lemma validateStock_failure:
  "validateStock meds its = Some r \<Longrightarrow> \<not> res_success r \<and> res_data r = None"
  using validateStock_Some[of meds its r] by (auto simp: respond_def)

lemma processCheckout_stock_fail:
  "req_user req = Some u \<Longrightarrow>
   find (\<lambda>t. pharmacyId t = pharmacyOf u \<and> transactionType t = requestType req
              \<and> status t = TS_pending) (transactions w) = Some t \<Longrightarrow>
   items t \<noteq> [] \<Longrightarrow> requestType req = Sale \<Longrightarrow> \<not> isDraft req \<Longrightarrow>
   validateStock (medicines w) (items t) = Some r \<Longrightarrow>
   processCheckout env req w = (r, w)"
  by (simp add: processCheckout_def)

lemma processCheckout_changed:
  "processCheckout env req w = (resp, w') \<Longrightarrow> w' \<noteq> w \<Longrightarrow>
   requestType req = Sale \<Longrightarrow> \<not> isDraft req \<Longrightarrow>
   \<exists>u t. req_user req = Some u
      \<and> find (\<lambda>t. pharmacyId t = pharmacyOf u \<and> transactionType t = requestType req
                  \<and> status t = TS_pending) (transactions w) = Some t
      \<and> validateStock (medicines w) (items t) = None"
  by (auto simp: processCheckout_def Let_def split: option.splits if_splits)

text \<open>
  C4. In a checkout of a sale that is not a draft, the stock check runs over every item of
  the pending transaction before anything is written. When it fails, the response is the
  one of the first failing item (404 naming the item when its medicine does not resolve,
  400 naming the medicine and its available quantity when the stock is below the requested
  quantity) and the world is exactly as before: no transaction is saved, no stock is
  changed, no payment is dispatched. Whenever such a checkout changes anything, every item
  resolved to a medicine with enough stock.
\<close>

theorem stock_check_before_mutation:
  "(req_user req = Some u
      \<and> find (\<lambda>t. pharmacyId t = pharmacyOf u \<and> transactionType t = requestType req
                  \<and> status t = TS_pending) (transactions w) = Some t
      \<and> items t \<noteq> [] \<and> requestType req = Sale \<and> \<not> isDraft req
      \<and> validateStock (medicines w) (items t) = Some r
    \<longrightarrow> processCheckout env req w = (r, w) \<and> \<not> res_success r)
   \<and> (validateStock meds its = Some r \<longrightarrow>
        (\<exists>item \<in> set its.
           (meds (medicineId item) = None
              \<and> r = respond 404 False (MedicineNotFound (medicineName item)))
           \<or> (\<exists>m. meds (medicineId item) = Some m \<and> med_quantity m < quantity item
                  \<and> r = respond 400 False (InsufficientStock (med_name m) (med_quantity m)))))
   \<and> ((validateStock meds its = None) =
        (\<forall>item \<in> set its. \<exists>m. meds (medicineId item) = Some m
                                 \<and> quantity item \<le> med_quantity m))
   \<and> (requestType req = Sale \<and> \<not> isDraft req
        \<and> processCheckout env req w = (resp, w') \<and> w' \<noteq> w
      \<longrightarrow> (\<exists>u1 t1. req_user req = Some u1
             \<and> find (\<lambda>t. pharmacyId t = pharmacyOf u1 \<and> transactionType t = requestType req
                         \<and> status t = TS_pending) (transactions w) = Some t1
             \<and> (\<forall>item \<in> set (items t1).
                   \<exists>m. medicines w (medicineId item) = Some m
                       \<and> quantity item \<le> med_quantity m)))"
proof -
  have a: "req_user req = Some u
      \<and> find (\<lambda>t. pharmacyId t = pharmacyOf u \<and> transactionType t = requestType req
                  \<and> status t = TS_pending) (transactions w) = Some t
      \<and> items t \<noteq> [] \<and> requestType req = Sale \<and> \<not> isDraft req
      \<and> validateStock (medicines w) (items t) = Some r
    \<longrightarrow> processCheckout env req w = (r, w) \<and> \<not> res_success r"
    using processCheckout_stock_fail[of req u w t r env] validateStock_failure[of "medicines w" "items t" r]
    by blast
  have d: "requestType req = Sale \<and> \<not> isDraft req
        \<and> processCheckout env req w = (resp, w') \<and> w' \<noteq> w
      \<longrightarrow> (\<exists>u1 t1. req_user req = Some u1
             \<and> find (\<lambda>t. pharmacyId t = pharmacyOf u1 \<and> transactionType t = requestType req
                         \<and> status t = TS_pending) (transactions w) = Some t1
             \<and> (\<forall>item \<in> set (items t1).
                   \<exists>m. medicines w (medicineId item) = Some m
                       \<and> quantity item \<le> med_quantity m))"
    using processCheckout_changed[of env req w resp w'] validateStock_None
    by blast
  show ?thesis
    using a d validateStock_Some[of meds its r] validateStock_None[of meds its]
    by blast
qed

theorem stock_check_before_mutation_witness:
  "requestType exampleRequest = Sale \<and> \<not> isDraft exampleRequest
   \<and> validateStock (medicines exampleScarceWorld)
        [\<lparr>medicineId = 12, medicineName = ''Ibuprofen'', quantity = 2, unitPrice = 5,
          totalPrice = 10, costPrice = None\<rparr>]
       = Some (respond 400 False (InsufficientStock ''Ibuprofen'' 1))
   \<and> processCheckout exampleCheckoutEnv exampleRequest exampleScarceWorld
       = (respond 400 False (InsufficientStock ''Ibuprofen'' 1), exampleScarceWorld)
   \<and> snd (processCheckout exampleCheckoutEnv exampleRequest exampleWorld) \<noteq> exampleWorld
   \<and> map medicineId (items examplePendingTransaction) = [11]
   \<and> map quantity (items examplePendingTransaction) = [1]
   \<and> (\<exists>m. medicines exampleWorld 11 = Some m \<and> 1 \<le> med_quantity m)"
proof -
  have c: "charges (snd (processCheckout exampleCheckoutEnv exampleRequest exampleWorld))
             \<noteq> charges exampleWorld"
    by (simp add: example_defs checkout_defs)
  then have n: "snd (processCheckout exampleCheckoutEnv exampleRequest exampleWorld)
                  \<noteq> exampleWorld"
    by auto
  have f: "find (\<lambda>t. pharmacyId t = pharmacyOf \<lparr>user_id = 7, user_pharmacyId = None\<rparr>
                     \<and> transactionType t = requestType exampleRequest
                     \<and> status t = TS_pending) (transactions exampleWorld)
             = Some examplePendingTransaction"
    by (simp add: example_defs checkout_defs)
  have p: "processCheckout exampleCheckoutEnv exampleRequest exampleWorld
     = (fst (processCheckout exampleCheckoutEnv exampleRequest exampleWorld),
        snd (processCheckout exampleCheckoutEnv exampleRequest exampleWorld))"
    by simp
  have "\<forall>item \<in> set (items examplePendingTransaction).
         \<exists>m. medicines exampleWorld (medicineId item) = Some m
             \<and> quantity item \<le> med_quantity m"
    using n f p
      stock_check_before_mutation[where req=exampleRequest and w=exampleWorld
        and env=exampleCheckoutEnv
        and resp="fst (processCheckout exampleCheckoutEnv exampleRequest exampleWorld)"
        and w'="snd (processCheckout exampleCheckoutEnv exampleRequest exampleWorld)"]
    by (auto simp: exampleRequest_def requestType_def isDraft_def)
  then have "\<exists>m. medicines exampleWorld 11 = Some m \<and> 1 \<le> med_quantity m"
    by (simp add: examplePendingTransaction_def)
  then show ?thesis
    using n
      stock_check_before_mutation[where req=exampleRequest and w=exampleScarceWorld
        and env=exampleCheckoutEnv and u="\<lparr>user_id = 7, user_pharmacyId = None\<rparr>"
        and t="examplePendingTransaction\<lparr>items :=
          [\<lparr>medicineId = 12, medicineName = ''Ibuprofen'', quantity = 2, unitPrice = 5,
            totalPrice = 10, costPrice = None\<rparr>]\<rparr>"
        and r="respond 400 False (InsufficientStock ''Ibuprofen'' 1)"]
    by (simp add: example_defs requestType_def isDraft_def pharmacyOf_def)
qed

subsection \<open>Checkout: a failed payment\<close>

lemma dispatch_independent:
  "pr_success (processPaymentByType gw ty a doc) = pr_success (processPaymentByType gw ty 0 None)
   \<and> pr_message (processPaymentByType gw ty a doc)
       = pr_message (processPaymentByType gw ty 0 None)"
  by (simp add: processPaymentByType_def processCashPayment_def processCardPayment_def
        processBankTransfer_def processDigitalWallet_def split: gateway_outcome.splits)

lemma dispatch_failure:
  assumes "\<not> pr_success (processPaymentByType gw ty 0 None)"
    and "m = pr_message (processPaymentByType gw ty 0 None)"
  shows "\<not> pr_success (processPaymentByType gw ty a doc)"
    and "pr_message (processPaymentByType gw ty a doc) = m"
  using assms dispatch_independent[of gw ty a doc] by simp_all

lemma checkoutPay_fail:
  assumes "\<not> isDraft req" "req_paymentType req = Some ty" "ty \<noteq> []"
    "\<not> pr_success (processPaymentByType (ck_gateways env) ty 0 None)"
  shows "checkoutPay env req u t tot w =
     (\<lparr>res_status = 400, res_success = False,
       res_message = map_option Text (pr_message (processPaymentByType (ck_gateways env) ty 0 None)),
       res_data = None\<rparr>,
      w\<lparr>charges := charges w @ [(ty, tot_total tot)]\<rparr>)"
proof -
  define m where "m = pr_message (processPaymentByType (ck_gateways env) ty 0 None)"
  show ?thesis
    unfolding m_def[symmetric]
    using assms(1-3) dispatch_failure[OF assms(4) m_def]
    by (simp add: checkoutPay_def Let_def)
qed

lemma processCheckout_payment_fail:
  assumes "\<not> isDraft req" "req_paymentType req = Some ty" "ty \<noteq> []"
    "\<not> pr_success (processPaymentByType (ck_gateways env) ty 0 None)"
    "processCheckout env req w = (resp, w')"
  shows "\<not> res_success resp \<and> res_data resp = None
     \<and> transactions w' = transactions w \<and> medicines w' = medicines w \<and> carts w' = carts w
     \<and> (charges w' \<noteq> charges w \<longrightarrow>
          res_status resp = 400
          \<and> res_message resp =
              map_option Text (pr_message (processPaymentByType (ck_gateways env) ty 0 None)))"
  using assms(5) checkoutPay_fail[OF assms(1-4)] validateStock_failure
  by (auto simp: processCheckout_def Let_def respond_def split: option.splits if_splits)

lemma quickItems_failure:
  "quickItems meds ty ris = Inl r \<Longrightarrow> \<not> res_success r \<and> res_data r = None"
  by (induction ris arbitrary: r) (auto simp: respond_def Let_def split: option.splits if_splits sum.splits)

lemma quickCheckout_payment_fail:
  assumes "req_paymentType req = Some ty" "ty \<noteq> []"
    "\<not> pr_success (processPaymentByType (ck_gateways env) ty 0 None)"
    "quickCheckout env req w = (resp, w')"
  shows "\<not> res_success resp \<and> res_data resp = None
     \<and> transactions w' = transactions w \<and> medicines w' = medicines w \<and> carts w' = carts w
     \<and> (charges w' \<noteq> charges w \<longrightarrow>
          res_status resp = 400
          \<and> res_message resp =
              map_option Text (pr_message (processPaymentByType (ck_gateways env) ty 0 None)))"
proof -
  define m where "m = pr_message (processPaymentByType (ck_gateways env) ty 0 None)"
  show ?thesis
    unfolding m_def[symmetric]
    using assms(1,2,4) dispatch_failure[OF assms(3) m_def] quickItems_failure
    by (auto simp: quickCheckout_def Let_def respond_def split: option.splits if_splits sum.splits)
qed

text \<open>
  C5. Whether the payment dispatch succeeds, and with what message it fails, depends on
  the payment type and the gateways only. In a checkout that is not a draft and names a
  payment type whose dispatch fails, \<open>processCheckout\<close> responds with a failure and no data,
  and the transactions, the medicines and the carts are as before: no transaction is saved
  or completed, no stock is decremented, no cart is cleared. Once the dispatch was called
  the response is 400 with the message of the dispatch. The same holds for
  \<open>quickCheckout\<close>.
\<close>

theorem payment_failure_aborts:
  "pr_success (processPaymentByType gw ty a doc) = pr_success (processPaymentByType gw ty 0 None)
   \<and> pr_message (processPaymentByType gw ty a doc)
       = pr_message (processPaymentByType gw ty 0 None)
   \<and> (\<not> isDraft req \<and> req_paymentType req = Some ty \<and> ty \<noteq> []
        \<and> \<not> pr_success (processPaymentByType (ck_gateways env) ty 0 None)
        \<and> processCheckout env req w = (resp, w')
      \<longrightarrow> \<not> res_success resp \<and> res_data resp = None
          \<and> transactions w' = transactions w \<and> medicines w' = medicines w
          \<and> carts w' = carts w
          \<and> (charges w' \<noteq> charges w \<longrightarrow>
               res_status resp = 400
               \<and> res_message resp =
                   map_option Text
                     (pr_message (processPaymentByType (ck_gateways env) ty 0 None))))
   \<and> (req_paymentType req = Some ty \<and> ty \<noteq> []
        \<and> \<not> pr_success (processPaymentByType (ck_gateways env) ty 0 None)
        \<and> quickCheckout env req w = (resp, w')
      \<longrightarrow> \<not> res_success resp \<and> res_data resp = None
          \<and> transactions w' = transactions w \<and> medicines w' = medicines w
          \<and> carts w' = carts w
          \<and> (charges w' \<noteq> charges w \<longrightarrow>
               res_status resp = 400
               \<and> res_message resp =
                   map_option Text
                     (pr_message (processPaymentByType (ck_gateways env) ty 0 None))))"
  using dispatch_independent[of gw ty a doc]
    processCheckout_payment_fail[of req ty env w resp w']
    quickCheckout_payment_fail[of req ty env w resp w']
  by blast

theorem payment_failure_aborts_witness:
  "\<not> isDraft exampleRequest
   \<and> \<not> pr_success (processPaymentByType (ck_gateways exampleCheckoutEnv) ''card'' 0 None)
   \<and> processCheckout exampleCheckoutEnv (exampleRequest\<lparr>req_paymentType := Some ''card''\<rparr>)
        exampleWorld
       = (\<lparr>res_status = 400, res_success = False,
           res_message = Some (Text ''Payment declined by bank''), res_data = None\<rparr>,
          exampleWorld\<lparr>charges := [(''card'', 79 / 5)]\<rparr>)
   \<and> quickCheckout exampleCheckoutEnv (exampleRequest\<lparr>req_paymentType := Some ''card''\<rparr>)
        exampleWorld
       = (\<lparr>res_status = 400, res_success = False,
           res_message = Some (Text ''Payment declined by bank''), res_data = None\<rparr>,
          exampleWorld\<lparr>charges := [(''card'', 54 / 5)]\<rparr>)
   \<and> transactions (exampleWorld\<lparr>charges := [(''card'', 79 / 5)]\<rparr>) = transactions exampleWorld
   \<and> carts (exampleWorld\<lparr>charges := [(''card'', 54 / 5)]\<rparr>) = carts exampleWorld"
proof -
  have p: "processCheckout exampleCheckoutEnv (exampleRequest\<lparr>req_paymentType := Some ''card''\<rparr>)
        exampleWorld
       = (\<lparr>res_status = 400, res_success = False,
           res_message = Some (Text ''Payment declined by bank''), res_data = None\<rparr>,
          exampleWorld\<lparr>charges := [(''card'', 79 / 5)]\<rparr>)"
    by (simp add: example_defs checkout_defs)
  have q: "quickCheckout exampleCheckoutEnv (exampleRequest\<lparr>req_paymentType := Some ''card''\<rparr>)
        exampleWorld
       = (\<lparr>res_status = 400, res_success = False,
           res_message = Some (Text ''Payment declined by bank''), res_data = None\<rparr>,
          exampleWorld\<lparr>charges := [(''card'', 54 / 5)]\<rparr>)"
    by (simp add: example_defs checkout_defs)
  have f: "\<not> pr_success (processPaymentByType (ck_gateways exampleCheckoutEnv) ''card'' 0 None)"
    by (simp add: example_defs checkout_defs)
  show ?thesis
    using p q f
      payment_failure_aborts[where req="exampleRequest\<lparr>req_paymentType := Some ''card''\<rparr>"
        and ty="''card''" and env=exampleCheckoutEnv and w=exampleWorld
        and resp="\<lparr>res_status = 400, res_success = False,
           res_message = Some (Text ''Payment declined by bank''), res_data = None\<rparr>"
        and w'="exampleWorld\<lparr>charges := [(''card'', 79 / 5)]\<rparr>"]
    by (simp add: isDraft_def exampleRequest_def)
qed

subsection \<open>Checkout: the amount that is charged\<close>

lemma calculateTotal_fields:
  "tot_subtotal (calculateTotal addrs its opt addressId rate)
     = sum_list (map (\<lambda>item. unitPrice item * quantity item) its)"
  "tot_deliveryFee (calculateTotal addrs its opt addressId rate)
     = (if opt = DO_delivery then 5 else 0)"
  "tot_tax (calculateTotal addrs its opt addressId rate)
     = tot_subtotal (calculateTotal addrs its opt addressId rate)
         * (case rate of None \<Rightarrow> 8 / 100 | Some r \<Rightarrow> r)"
  "tot_total (calculateTotal addrs its opt addressId rate)
     = tot_subtotal (calculateTotal addrs its opt addressId rate)
         + tot_tax (calculateTotal addrs its opt addressId rate)
         + tot_deliveryFee (calculateTotal addrs its opt addressId rate)"
  by (simp_all add: calculateTotal_def Let_def foldl_plus_sum)

text \<open>
  C6 at a concrete checkout. A pending sale of one item at 10.00 is checked out for
  delivery, paid in cash, with a discount of 5: subtotal 10, tax 0.80, delivery fee 5.
  \<open>processCheckout\<close> asks the dispatch for 15.80, the total before the discount, and
  writes a transaction whose \<open>totalAmount\<close> and payment amount are 10.80. For the same
  order \<open>quickCheckout\<close> asks the dispatch for 10.80.
\<close>

theorem processCheckout_charges_undiscounted_total:
  "requestDiscount exampleRequest = 5
   \<and> res_status (fst (processCheckout exampleCheckoutEnv exampleRequest exampleWorld)) = 201
   \<and> charges (snd (processCheckout exampleCheckoutEnv exampleRequest exampleWorld))
       = [(''cash'', 79 / 5)]
   \<and> map totalAmount
        (transactions (snd (processCheckout exampleCheckoutEnv exampleRequest exampleWorld)))
       = [54 / 5]
   \<and> map (\<lambda>t. pay_amount (payment t))
        (transactions (snd (processCheckout exampleCheckoutEnv exampleRequest exampleWorld)))
       = [Some (54 / 5)]
   \<and> charges (snd (quickCheckout exampleCheckoutEnv exampleRequest exampleWorld))
       = [(''cash'', 54 / 5)]"
  by (simp add: example_defs checkout_defs numeral_3_eq_3)

end
